theory Spec2Isabelle
  imports Complex_Main "HOL-Library.AList" "HOL-Library.Sublist" "HOL-Library.Log_Nat"
begin

section \<open>Data model\<close>

subsection \<open>JavaScript numbers\<close>

text \<open>
  A JavaScript number is an IEEE 754 double: a finite value, which is a rational, one of the
  two infinities, or NaN. The sign of zero is not kept. \<open>to_double\<close> rounds a rational to
  the nearest double, ties to the even significand: a double has a significand of 53 bits
  over a power of two no smaller than \<open>2 powi - 1074\<close>, and what rounds to \<open>2 powi 1024\<close> or
  beyond becomes an infinity. \<open>exponent\<close> is the integer part of the binary logarithm of a
  positive rational.
\<close>

datatype number = Finite rat | PosInfinity | NegInfinity | NaN







subsection \<open>Rows\<close>

text \<open>
  The rows of the relational tables that the route handlers of \<^verbatim>\<open>server/routes.ts\<close> read and
  write. Column names follow the source; a prefix is added where two tables share a name
  (\<^verbatim>\<open>id\<close>, \<^verbatim>\<open>status\<close>, \<^verbatim>\<open>projectId\<close>). Text is kept as UTF-8 bytes and timestamps as
  milliseconds. The prices, which the handlers read and write as the text of a decimal
  column, are the rationals that the text denotes. The percentage and the amount of a stage
  are the JavaScript numbers that the handler passes to the store. The statuses, which the
  tables hold as strings, are the enumerations of the schema.
\<close>

datatype role = Admin | Partner | Client

record user =
  user_id :: int
  user_role :: role
  fullName :: string
  email :: string

datatype project_status = ProjectPending | InProgress | Completed | Cancelled

record project =
  project_id :: int
  clientId :: int
  project_name :: string
  price :: rat
  project_status :: project_status

datatype stage_status = Pending | Available | PendingVerification | Paid

datatype json = JNull | JNum int | JStr string | JDate nat | JObj "(string \<times> json) list"

record paymentStage =
  stage_id :: int
  stage_projectId :: int
  stageName :: string
  stagePercentage :: number
  amount :: number
  requiredProgress :: int
  stage_status :: stage_status
  paymentMethod :: "string option"
  proofFileUrl :: "string option"
  paymentData :: "(string \<times> json) list option"
  paidAt :: "nat option"
  approvedBy :: "int option"
  approvedAt :: "nat option"

datatype negotiation_status = NegPending | Accepted | Rejected | Countered

record budgetNegotiation =
  neg_id :: int
  neg_projectId :: int
  proposedBy :: int
  originalPrice :: rat
  proposedPrice :: rat
  neg_message :: "string option"
  neg_status :: negotiation_status

datatype notification_type = Info | Success | Warning | Error

record notification =
  notif_userId :: int
  notif_title :: string
  notif_message :: string
  notif_type :: notification_type
  isRead :: bool

record timelineItem =
  tl_projectId :: int
  tl_title :: string
  tl_description :: string
  tl_status :: string
  estimatedDate :: "nat option"

text \<open>The file that multer hands to the handler, and the JSON descriptor a client may send
  in its place (\<^verbatim>\<open>proofFileInfo\<close>).\<close>

record uploadedFile =
  originalname :: string
  file_size :: nat
  mimetype :: string

record proofFileInfo =
  fi_fileName :: string
  fi_fileSize :: nat
  fi_fileType :: "string option"

datatype attachment =
  AttachedFile string nat string | IndicatedFile string nat "string option" | NoAttachment

text \<open>An outgoing e-mail is recorded by the template that produces it and the arguments the
  handler passes; the HTML is the business of \<^verbatim>\<open>server/email.ts\<close>.\<close>

datatype mail =
  PaymentStageAvailableMail string string string string number number
  | BudgetAcceptanceMail string string string string rat rat string
  | PaymentProofToAdminMail string string string number string attachment
  | PaymentProofConfirmationMail string string string string number string

record state =
  users :: "user list"
  projects :: "project list"
  paymentStages :: "paymentStage list"
  budgetNegotiations :: "budgetNegotiation list"
  notifications :: "notification list"
  projectTimeline :: "timelineItem list"
  outbox :: "mail list"

text \<open>What the request finds outside the store: whether inserting a notification row or
  sending mail throws, and the system mailbox of the environment (\<^verbatim>\<open>GMAIL_USER\<close>).\<close>

record env =
  notificationsDown :: bool
  emailDown :: bool
  gmailUser :: "string option"

text \<open>The error responses of the handlers, by the status they send: 404 (with the row that
  was not found), 400 for an operation outside its required state, 403, 400 for a malformed
  parameter, and the 500 of the outer \<^verbatim>\<open>catch\<close>. A handler returns the store it leaves and
  either an error or the body of its 200 response.\<close>

datatype entity = StageRow | ProjectRow | ClientRow

datatype error = NotFound entity | InvalidState | Forbidden | ValidationFailure | InternalError

section \<open>Text helpers\<close>

fun show_nat :: "nat \<Rightarrow> string" where
  "show_nat n =
     (if n < 10 then [''0123456789'' ! n]
      else show_nat (n div 10) @ [''0123456789'' ! (n mod 10)])"

declare show_nat.simps [simp del]

definition show_int :: "int \<Rightarrow> string" where
  "show_int i = (if i < 0 then ''-'' @ show_nat (nat (- i)) else show_nat (nat i))"

text \<open>\<^verbatim>\<open>String.prototype.split\<close> on a one-character separator.\<close>

fun split_str :: "char \<Rightarrow> string \<Rightarrow> string list" where
  "split_str c [] = [[]]"
| "split_str c (x # xs) =
     (if x = c then [] # split_str c xs
      else (case split_str c xs of [] \<Rightarrow> [[x]] | p # ps \<Rightarrow> (x # p) # ps))"

text \<open>\<^verbatim>\<open>fileType?.split('/')[1] || 'jpg'\<close>: the second piece when there is one and it is not
  empty.\<close>

definition fileExtension :: "string option \<Rightarrow> string" where
  "fileExtension fileType =
     (case fileType of
        None \<Rightarrow> ''jpg''
      | Some t \<Rightarrow>
          (case split_str (CHR ''/'') t of
             _ # e # _ \<Rightarrow> (if e = [] then ''jpg'' else e)
           | _ \<Rightarrow> ''jpg''))"

text \<open>\<^verbatim>\<open>Array.prototype.findIndex\<close>: the first position that satisfies the predicate, -1 when
  there is none.\<close>

fun findIndex :: "('a \<Rightarrow> bool) \<Rightarrow> 'a list \<Rightarrow> int" where
  "findIndex P [] = - 1"
| "findIndex P (x # xs) =
     (if P x then 0 else (let i = findIndex P xs in if i < 0 then - 1 else i + 1))"

section \<open>The persistence API\<close>

text \<open>
  Modelled from the spec: \<^verbatim>\<open>server/storage.ts\<close> and the schema of the tables are not among
  the sources. The spec describes the collaborator as a persistence API supporting
  create/read/update by id and by foreign key. Reads return the first row with the
  identifier, an update rewrites the named columns of the rows with the identifier (none
  when there is no such row), and a create appends a row under an identifier that no row of
  the table has.
\<close>

definition next_id :: "int list \<Rightarrow> int" where
  "next_id ids = foldr max ids 0 + 1"

definition getProject :: "int \<Rightarrow> state \<Rightarrow> project option" where
  "getProject pid s = find (\<lambda>p. project_id p = pid) (projects s)"

definition getUserById :: "int \<Rightarrow> state \<Rightarrow> user option" where
  "getUserById uid s = find (\<lambda>u. user_id u = uid) (users s)"

definition getUsersByRole :: "role \<Rightarrow> state \<Rightarrow> user list" where
  "getUsersByRole r s = filter (\<lambda>u. user_role u = r) (users s)"

definition selectPaymentStage :: "int \<Rightarrow> state \<Rightarrow> paymentStage option" where
  "selectPaymentStage sid s = find (\<lambda>st. stage_id st = sid) (paymentStages s)"

definition getPaymentStages :: "int \<Rightarrow> state \<Rightarrow> paymentStage list" where
  "getPaymentStages pid s = filter (\<lambda>st. stage_projectId st = pid) (paymentStages s)"

definition selectBudgetNegotiation :: "int \<Rightarrow> state \<Rightarrow> budgetNegotiation option" where
  "selectBudgetNegotiation nid s = find (\<lambda>n. neg_id n = nid) (budgetNegotiations s)"

definition updateProject :: "int \<Rightarrow> (project \<Rightarrow> project) \<Rightarrow> state \<Rightarrow> state" where
  "updateProject pid f s =
     s\<lparr>projects := map (\<lambda>p. if project_id p = pid then f p else p) (projects s)\<rparr>"

definition updatePaymentStage ::
  "int \<Rightarrow> (paymentStage \<Rightarrow> paymentStage) \<Rightarrow> state \<Rightarrow> state \<times> paymentStage option" where
  "updatePaymentStage sid f s =
     (let s' = s\<lparr>paymentStages :=
                  map (\<lambda>st. if stage_id st = sid then f st else st) (paymentStages s)\<rparr>
      in (s', selectPaymentStage sid s'))"

definition updateBudgetNegotiation ::
  "int \<Rightarrow> (budgetNegotiation \<Rightarrow> budgetNegotiation) \<Rightarrow> state
     \<Rightarrow> state \<times> budgetNegotiation option" where
  "updateBudgetNegotiation nid f s =
     (let s' = s\<lparr>budgetNegotiations :=
                  map (\<lambda>n. if neg_id n = nid then f n else n) (budgetNegotiations s)\<rparr>
      in (s', selectBudgetNegotiation nid s'))"

definition createPaymentStage ::
  "int \<Rightarrow> string \<Rightarrow> number \<Rightarrow> number \<Rightarrow> int \<Rightarrow> stage_status \<Rightarrow> state
     \<Rightarrow> state \<times> paymentStage" where
  "createPaymentStage pid name pct amt progress status s =
     (let created = \<lparr>stage_id = next_id (map stage_id (paymentStages s)),
                      stage_projectId = pid, stageName = name, stagePercentage = pct,
                      amount = amt, requiredProgress = progress, stage_status = status,
                      paymentMethod = None, proofFileUrl = None, paymentData = None,
                      paidAt = None, approvedBy = None, approvedAt = None\<rparr>
      in (s\<lparr>paymentStages := paymentStages s @ [created]\<rparr>, created))"

definition createBudgetNegotiation ::
  "int \<Rightarrow> int \<Rightarrow> rat \<Rightarrow> rat \<Rightarrow> string option \<Rightarrow> negotiation_status \<Rightarrow> state
     \<Rightarrow> state \<times> budgetNegotiation" where
  "createBudgetNegotiation pid uid original proposed msg status s =
     (let created = \<lparr>neg_id = next_id (map neg_id (budgetNegotiations s)),
                      neg_projectId = pid, proposedBy = uid, originalPrice = original,
                      proposedPrice = proposed, neg_message = msg, neg_status = status\<rparr>
      in (s\<lparr>budgetNegotiations := budgetNegotiations s @ [created]\<rparr>, created))"

definition hasProjectTimeline :: "int \<Rightarrow> state \<Rightarrow> bool" where
  "hasProjectTimeline pid s = (\<exists>t \<in> set (projectTimeline s). tl_projectId t = pid)"

definition createProjectTimeline :: "timelineItem \<Rightarrow> state \<Rightarrow> state" where
  "createProjectTimeline t s = s\<lparr>projectTimeline := projectTimeline s @ [t]\<rparr>"

text \<open>
  Modelled from the spec: \<^verbatim>\<open>storage.createNotification\<close> (\<^verbatim>\<open>server/storage.ts\<close>) and the
  senders of \<^verbatim>\<open>server/email.ts\<close> are not among the sources. They are the two notification
  channels that the handlers of the payment stages call. Each either throws (\<open>None\<close>) or
  leaves its record: a row of the notifications table, unread, or a mail in the outbox.
\<close>

definition createNotification ::
  "env \<Rightarrow> int \<Rightarrow> string \<Rightarrow> string \<Rightarrow> notification_type \<Rightarrow> state \<Rightarrow> state option" where
  "createNotification e uid title msg ty s =
     (if notificationsDown e then None
      else Some (s\<lparr>notifications := notifications s @
                     [\<lparr>notif_userId = uid, notif_title = title, notif_message = msg,
                       notif_type = ty, isRead = False\<rparr>]\<rparr>))"

definition sendEmail :: "env \<Rightarrow> mail \<Rightarrow> state \<Rightarrow> state option" where
  "sendEmail e m s = (if emailDown e then None else Some (s\<lparr>outbox := outbox s @ [m]\<rparr>))"

text \<open>\<^verbatim>\<open>try { await sendEmail(...) } catch (e) { console.error(...) }\<close>\<close>

definition trySendEmail :: "env \<Rightarrow> mail \<Rightarrow> state \<Rightarrow> state" where
  "trySendEmail e m s = (case sendEmail e m s of None \<Rightarrow> s | Some s' \<Rightarrow> s')"

section \<open>Payment stages\<close>

subsection \<open>POST /api/projects/:id/payment-stages\<close>



fun mailAvailableStages :: "env \<Rightarrow> user \<Rightarrow> project \<Rightarrow> paymentStage list \<Rightarrow> state \<Rightarrow> state" where
  "mailAvailableStages e client project [] s = s"
| "mailAvailableStages e client project (stage # rest) s =
     mailAvailableStages e client project rest
       (trySendEmail e
          (PaymentStageAvailableMail (email client) (fullName client) (project_name project)
             (stageName stage) (amount stage) (stagePercentage stage)) s)"


fun seedTimeline :: "int \<Rightarrow> (string \<times> string) list \<Rightarrow> state \<Rightarrow> state" where
  "seedTimeline projectId [] s = s"
| "seedTimeline projectId ((title, description) # rest) s =
     seedTimeline projectId rest
       (createProjectTimeline
          \<lparr>tl_projectId = projectId, tl_title = title, tl_description = description,
            tl_status = ''pending'', estimatedDate = None\<rparr> s)"


subsection \<open>POST /api/payment-stages/:id/confirm-payment\<close>

definition proofFileName ::
  "int \<Rightarrow> nat \<Rightarrow> uploadedFile option \<Rightarrow> proofFileInfo option \<Rightarrow> string option" where
  "proofFileName stageId dateNow proofFile info =
     (case proofFile of
        Some f \<Rightarrow>
          Some (''comprobante_'' @ show_int stageId @ ''_'' @ show_nat dateNow @ ''_''
                @ originalname f)
      | None \<Rightarrow>
          (case info of
             Some i \<Rightarrow>
               Some (''comprobante_'' @ show_int stageId @ ''_'' @ show_nat dateNow @ ''.''
                     @ fileExtension (fi_fileType i))
           | None \<Rightarrow> None))"

definition fileInfoJson :: "uploadedFile option \<Rightarrow> proofFileInfo option \<Rightarrow> json" where
  "fileInfoJson proofFile info =
     (case info of
        Some i \<Rightarrow>
          JObj ([(''fileName'', JStr (fi_fileName i)), (''fileSize'', JNum (int (fi_fileSize i)))]
                @ (case fi_fileType i of None \<Rightarrow> [] | Some t \<Rightarrow> [(''fileType'', JStr t)]))
      | None \<Rightarrow>
          (case proofFile of
             Some f \<Rightarrow>
               JObj [(''fileName'', JStr (originalname f)), (''fileSize'', JNum (int (file_size f))),
                     (''fileType'', JStr (mimetype f))]
           | None \<Rightarrow> JNull))"

definition confirmPaymentData ::
  "user \<Rightarrow> nat \<Rightarrow> string \<Rightarrow> uploadedFile option \<Rightarrow> proofFileInfo option \<Rightarrow> (string \<times> json) list" where
  "confirmPaymentData u confirmedAt payMethod proofFile info =
     [(''confirmedBy'', JNum (user_id u)), (''confirmedAt'', JDate confirmedAt),
      (''method'', JStr payMethod), (''fileInfo'', fileInfoJson proofFile info)]
     @ (case proofFile of None \<Rightarrow> [] | Some f \<Rightarrow> [(''originalFileName'', JStr (originalname f))])"

definition proofReceivedTitle :: string where
  "proofReceivedTitle = [CHR 0xF0, CHR 0x9F, CHR 0x93, CHR 0x8B] @ '' Comprobante de Pago Recibido''"

definition proofReceivedMessage :: "user \<Rightarrow> paymentStage \<Rightarrow> string \<Rightarrow> uploadedFile option \<Rightarrow> string" where
  "proofReceivedMessage client stage payMethod proofFile =
     ''El cliente '' @ fullName client @ '' envi'' @ [CHR 0xC3, CHR 0xB3]
     @ '' comprobante de pago para '' @ [CHR 0x22] @ stageName stage @ [CHR 0x22]
     @ '' mediante '' @ payMethod @ ''. ''
     @ (case proofFile of
          Some f \<Rightarrow> ''Comprobante adjunto: '' @ originalname f
        | None \<Rightarrow> ''Sin comprobante adjunto'')
     @ ''. Requiere verificaci'' @ [CHR 0xC3, CHR 0xB3] @ ''n.''"

text \<open>\<^verbatim>\<open>for (const admin of adminUsers) await storage.createNotification(...)\<close>: the flag
  says whether the loop ran to its end; a throw leaves the rows already inserted.\<close>

fun notifyAdmins :: "env \<Rightarrow> string \<Rightarrow> string \<Rightarrow> user list \<Rightarrow> state \<Rightarrow> state \<times> bool" where
  "notifyAdmins e title msg [] s = (s, True)"
| "notifyAdmins e title msg (admin # rest) s =
     (case createNotification e (user_id admin) title msg Warning s of
        None \<Rightarrow> (s, False)
      | Some s' \<Rightarrow> notifyAdmins e title msg rest s')"

definition proofAttachment :: "uploadedFile option \<Rightarrow> proofFileInfo option \<Rightarrow> attachment" where
  "proofAttachment proofFile info =
     (case proofFile of
        Some f \<Rightarrow> AttachedFile (originalname f) (file_size f) (mimetype f)
      | None \<Rightarrow>
          (case info of
             Some i \<Rightarrow> IndicatedFile (fi_fileName i) (fi_fileSize i) (fi_fileType i)
           | None \<Rightarrow> NoAttachment))"

text \<open>The two mails of the inner \<^verbatim>\<open>try\<close>: the second is not attempted when the first
  throws, and the \<^verbatim>\<open>catch\<close> only logs.\<close>

definition sendProofMails ::
  "env \<Rightarrow> user \<Rightarrow> project \<Rightarrow> paymentStage \<Rightarrow> string \<Rightarrow> attachment \<Rightarrow> state \<Rightarrow> state" where
  "sendProofMails e client project stage payMethod att s =
     (case sendEmail e
             (PaymentProofToAdminMail (fullName client) (project_name project) (stageName stage)
                (amount stage) payMethod att) s of
        None \<Rightarrow> s
      | Some s1 \<Rightarrow>
          (case sendEmail e
                  (PaymentProofConfirmationMail (email client) (fullName client)
                     (project_name project) (stageName stage) (amount stage) payMethod) s1 of
             None \<Rightarrow> s1
           | Some s2 \<Rightarrow> s2))"

definition confirm_payment ::
  "env \<Rightarrow> user \<Rightarrow> int \<Rightarrow> string \<Rightarrow> uploadedFile option \<Rightarrow> proofFileInfo option \<Rightarrow> nat \<Rightarrow> nat
     \<Rightarrow> state \<Rightarrow> state \<times> (error + paymentStage option)" where
  "confirm_payment e u stageId payMethod proofFile info dateNow confirmedAt s =
     (case selectPaymentStage stageId s of
        None \<Rightarrow> (s, Inl (NotFound StageRow))
      | Some stage \<Rightarrow>
          (case getProject (stage_projectId stage) s of
             None \<Rightarrow> (s, Inl (NotFound ProjectRow))
           | Some project \<Rightarrow>
               (case getUserById (clientId project) s of
                  None \<Rightarrow> (s, Inl (NotFound ClientRow))
                | Some client \<Rightarrow>
                    (let (s1, updated) =
                           updatePaymentStage stageId
                             (\<lambda>st. st\<lparr>paymentMethod := Some payMethod,
                                      proofFileUrl := proofFileName stageId dateNow proofFile info,
                                      stage_status := PendingVerification,
                                      paymentData :=
                                        Some (confirmPaymentData u confirmedAt payMethod proofFile info)\<rparr>)
                             s;
                         (s2, notified) =
                           notifyAdmins e proofReceivedTitle
                             (proofReceivedMessage client stage payMethod proofFile)
                             (getUsersByRole Admin s1) s1
                     in if \<not> notified then (s2, Inl InternalError)
                        else (sendProofMails e client project stage payMethod
                                (proofAttachment proofFile info) s2,
                              Inr updated)))))"

subsection \<open>POST /api/payment-stages/:id/approve-payment\<close>

definition approvedTitle :: string where
  "approvedTitle = [CHR 0xE2, CHR 0x9C, CHR 0x85] @ '' Pago Aprobado''"

definition approvedMessage :: "paymentStage \<Rightarrow> string" where
  "approvedMessage stage =
     ''Tu pago para la etapa '' @ [CHR 0x22] @ stageName stage @ [CHR 0x22]
     @ '' ha sido verificado y aprobado. '' @ [CHR 0xC2, CHR 0xA1]
     @ ''Continuamos con el desarrollo!''"

definition approve_payment ::
  "env \<Rightarrow> user \<Rightarrow> int \<Rightarrow> nat \<Rightarrow> nat \<Rightarrow> state \<Rightarrow> state \<times> (error + paymentStage option)" where
  "approve_payment e u stageId paidNow approvedNow s =
     (case selectPaymentStage stageId s of
        None \<Rightarrow> (s, Inl (NotFound StageRow))
      | Some stage \<Rightarrow>
          if stage_status stage \<noteq> PendingVerification then (s, Inl InvalidState)
          else
            (case getProject (stage_projectId stage) s of
               None \<Rightarrow> (s, Inl (NotFound ProjectRow))
             | Some project \<Rightarrow>
                 (case getUserById (clientId project) s of
                    None \<Rightarrow> (s, Inl (NotFound ClientRow))
                  | Some client \<Rightarrow>
                      (let (s1, updated) =
                             updatePaymentStage stageId
                               (\<lambda>st. st\<lparr>stage_status := Paid, paidAt := Some paidNow,
                                        approvedBy := Some (user_id u),
                                        approvedAt := Some approvedNow\<rparr>) s
                       in (case createNotification e (clientId project) approvedTitle
                                  (approvedMessage stage) Success s1 of
                             None \<Rightarrow> (s1, Inl InternalError)
                           | Some s2 \<Rightarrow> (s2, Inr updated))))))"

subsection \<open>POST /api/payment-stages/:id/reject-payment\<close>

definition rejectedTitle :: string where
  "rejectedTitle = [CHR 0xE2, CHR 0x9D, CHR 0x8C] @ '' Pago Rechazado''"

definition rejectedMessage :: "paymentStage \<Rightarrow> string \<Rightarrow> string" where
  "rejectedMessage stage reason =
     ''Tu comprobante de pago para '' @ [CHR 0x22] @ stageName stage @ [CHR 0x22]
     @ '' fue rechazado. Motivo: '' @ reason @ ''. Por favor, env'' @ [CHR 0xC3, CHR 0xAD]
     @ ''a un nuevo comprobante.''"

text \<open>\<^verbatim>\<open>{ ...stage[0].paymentData, rejectedBy, rejectedAt, rejectionReason }\<close>: the spread of
  \<^verbatim>\<open>null\<close> is the empty object; a key already present keeps its place and takes the new
  value.\<close>

definition rejectionData :: "(string \<times> json) list option \<Rightarrow> user \<Rightarrow> nat \<Rightarrow> string \<Rightarrow> (string \<times> json) list" where
  "rejectionData previous u rejectedAt reason =
     AList.update ''rejectionReason'' (JStr reason)
       (AList.update ''rejectedAt'' (JDate rejectedAt)
          (AList.update ''rejectedBy'' (JNum (user_id u))
             (case previous of None \<Rightarrow> [] | Some kvs \<Rightarrow> kvs)))"

definition reject_payment ::
  "env \<Rightarrow> user \<Rightarrow> int \<Rightarrow> string \<Rightarrow> nat \<Rightarrow> state \<Rightarrow> state \<times> (error + paymentStage option)" where
  "reject_payment e u stageId reason rejectedAt s =
     (case selectPaymentStage stageId s of
        None \<Rightarrow> (s, Inl (NotFound StageRow))
      | Some stage \<Rightarrow>
          if stage_status stage \<noteq> PendingVerification then (s, Inl InvalidState)
          else
            (case getProject (stage_projectId stage) s of
               None \<Rightarrow> (s, Inl (NotFound ProjectRow))
             | Some project \<Rightarrow>
                 (let (s1, updated) =
                        updatePaymentStage stageId
                          (\<lambda>st. st\<lparr>stage_status := Available, paymentMethod := None,
                                   proofFileUrl := None,
                                   paymentData :=
                                     Some (rejectionData (paymentData stage) u rejectedAt reason)\<rparr>)
                          s
                  in (case createNotification e (clientId project) rejectedTitle
                             (rejectedMessage stage reason) Error s1 of
                        None \<Rightarrow> (s1, Inl InternalError)
                      | Some s2 \<Rightarrow> (s2, Inr updated)))))"

subsection \<open>GET /api/client/stage-invoices/:stageId/download\<close>

text \<open>Of the rendered document the model keeps the data it is made of: the number of the
  stage, the number of stages, the line that shows both, and the amount.\<close>

record stageInvoice =
  inv_stageNumber :: int
  inv_totalStages :: nat
  inv_stageLine :: string
  inv_amount :: number

text \<open>\<^verbatim>\<open>allStages.sort((a, b) => a.requiredProgress - b.requiredProgress)\<close> is a stable sort by
  ascending \<^verbatim>\<open>requiredProgress\<close>. The parameter is \<open>None\<close> when \<^verbatim>\<open>parseInt\<close> gives
  \<^verbatim>\<open>NaN\<close>.\<close>

definition download_stage_invoice :: "user \<Rightarrow> int option \<Rightarrow> state \<Rightarrow> error + stageInvoice" where
  "download_stage_invoice u stageIdParam s =
     (case stageIdParam of
        None \<Rightarrow> Inl ValidationFailure
      | Some stageId \<Rightarrow>
          (case selectPaymentStage stageId s of
             None \<Rightarrow> Inl (NotFound StageRow)
           | Some stage \<Rightarrow>
               (case getProject (stage_projectId stage) s of
                  None \<Rightarrow> Inl (NotFound ProjectRow)
                | Some project \<Rightarrow>
                    if clientId project \<noteq> user_id u then Inl Forbidden
                    else if stage_status stage \<noteq> Paid then Inl InvalidState
                    else
                      (let allStages = getPaymentStages (stage_projectId stage) s;
                           sortedStages = sort_key requiredProgress allStages;
                           stageNumber =
                             findIndex (\<lambda>x. stage_id x = stage_id stage) sortedStages + 1;
                           totalStages = length sortedStages
                       in Inr \<lparr>inv_stageNumber = stageNumber, inv_totalStages = totalStages,
                               inv_stageLine =
                                 stageName stage @ '' - Etapa '' @ show_int stageNumber @ '' de ''
                                 @ show_nat totalStages,
                               inv_amount = amount stage\<rparr>))))"

subsection \<open>GET /api/client/stage-invoices/:stageId/download-resimple\<close>

definition download_stage_invoice_resimple ::
  "user \<Rightarrow> int option \<Rightarrow> state \<Rightarrow> error + stageInvoice" where
  "download_stage_invoice_resimple u stageIdParam s =
     (case stageIdParam of
        None \<Rightarrow> Inl ValidationFailure
      | Some stageId \<Rightarrow>
          (case selectPaymentStage stageId s of
             None \<Rightarrow> Inl (NotFound StageRow)
           | Some stage \<Rightarrow>
               (case getProject (stage_projectId stage) s of
                  None \<Rightarrow> Inl (NotFound ProjectRow)
                | Some project \<Rightarrow>
                    if clientId project \<noteq> user_id u then Inl Forbidden
                    else if stage_status stage \<noteq> Paid then Inl InvalidState
                    else
                      (let allStages = getPaymentStages (stage_projectId stage) s;
                           sortedStages = sort_key requiredProgress allStages;
                           stageNumber =
                             findIndex (\<lambda>x. stage_id x = stage_id stage) sortedStages + 1;
                           totalStages = length sortedStages
                       in Inr \<lparr>inv_stageNumber = stageNumber, inv_totalStages = totalStages,
                               inv_stageLine =
                                 ''Etapa '' @ show_int stageNumber @ '' de '' @ show_nat totalStages,
                               inv_amount = amount stage\<rparr>))))"

section \<open>Budget negotiation\<close>

subsection \<open>PUT /api/budget-negotiations/:id/respond\<close>

definition systemMailbox :: "env \<Rightarrow> string" where
  "systemMailbox e =
     (case gmailUser e of
        None \<Rightarrow> ''softwarepar.lat@gmail.com''
      | Some g \<Rightarrow> if g = [] then ''softwarepar.lat@gmail.com'' else g)"

definition acceptanceMail ::
  "string \<Rightarrow> project \<Rightarrow> user \<Rightarrow> budgetNegotiation \<Rightarrow> string option \<Rightarrow> mail" where
  "acceptanceMail recipient project client negotiation message =
     BudgetAcceptanceMail recipient (project_name project) (fullName client) (email client)
       (originalPrice negotiation) (proposedPrice negotiation)
       (case message of None \<Rightarrow> [] | Some m \<Rightarrow> m)"

fun mailAdminsAcceptance ::
  "env \<Rightarrow> project \<Rightarrow> user \<Rightarrow> budgetNegotiation \<Rightarrow> string option \<Rightarrow> user list \<Rightarrow> state \<Rightarrow> state" where
  "mailAdminsAcceptance e project client negotiation message [] s = s"
| "mailAdminsAcceptance e project client negotiation message (admin # rest) s =
     mailAdminsAcceptance e project client negotiation message rest
       (if email admin \<noteq> []
        then trySendEmail e (acceptanceMail (email admin) project client negotiation message) s
        else s)"

text \<open>The branch \<^verbatim>\<open>status === "accepted"\<close>: the price of the project is overwritten before
  the mails go out.\<close>

definition acceptNegotiation :: "env \<Rightarrow> int \<Rightarrow> string option \<Rightarrow> state \<Rightarrow> state" where
  "acceptNegotiation e negotiationId message s =
     (case selectBudgetNegotiation negotiationId s of
        None \<Rightarrow> s
      | Some negotiation \<Rightarrow>
          (let s1 = updateProject (neg_projectId negotiation)
                      (\<lambda>p. p\<lparr>price := proposedPrice negotiation, project_status := InProgress\<rparr>) s
           in (case getProject (neg_projectId negotiation) s1 of
                 None \<Rightarrow> s1
               | Some project \<Rightarrow>
                   (case getUserById (clientId project) s1 of
                      None \<Rightarrow> s1
                    | Some client \<Rightarrow>
                        trySendEmail e
                          (acceptanceMail (systemMailbox e) project client negotiation message)
                          (mailAdminsAcceptance e project client negotiation message
                             (getUsersByRole Admin s1) s1)))))"

text \<open>The branch \<^verbatim>\<open>status === "countered" && counterPrice\<close>: a counter price that is absent
  or zero is falsy.\<close>

definition counterNegotiation :: "user \<Rightarrow> int \<Rightarrow> string option \<Rightarrow> rat \<Rightarrow> state \<Rightarrow> state" where
  "counterNegotiation u negotiationId message counterPrice s =
     (case selectBudgetNegotiation negotiationId s of
        None \<Rightarrow> s
      | Some oldNegotiation \<Rightarrow>
          fst (createBudgetNegotiation (neg_projectId oldNegotiation) (user_id u)
                 (proposedPrice oldNegotiation) counterPrice message NegPending s))"

definition respond_budget_negotiation ::
  "env \<Rightarrow> user \<Rightarrow> int \<Rightarrow> negotiation_status \<Rightarrow> string option \<Rightarrow> rat option \<Rightarrow> state
     \<Rightarrow> state \<times> (error + budgetNegotiation option)" where
  "respond_budget_negotiation e u negotiationId status message counterPrice s =
     (let s1 = (if status = Accepted then acceptNegotiation e negotiationId message s else s);
          s2 = (case counterPrice of
                  None \<Rightarrow> s1
                | Some cp \<Rightarrow>
                    if status = Countered \<and> cp \<noteq> 0
                    then counterNegotiation u negotiationId message cp s1 else s1);
          (s3, updated) =
            updateBudgetNegotiation negotiationId (\<lambda>n. n\<lparr>neg_status := status\<rparr>) s2
      in (s3, Inr updated))"

section \<open>A project to run the handlers on\<close>

definition noFailures :: env where
  "noFailures = \<lparr>notificationsDown = False, emailDown = False, gmailUser = None\<rparr>"

definition notificationsFail :: env where
  "notificationsFail = \<lparr>notificationsDown = True, emailDown = False, gmailUser = None\<rparr>"

definition mailFails :: env where
  "mailFails = \<lparr>notificationsDown = False, emailDown = True, gmailUser = None\<rparr>"

definition adminUser :: user where
  "adminUser = \<lparr>user_id = 1, user_role = Admin, fullName = ''Admin'',
                 email = ''admin@softwarepar.lat''\<rparr>"

definition clientUser :: user where
  "clientUser = \<lparr>user_id = 2, user_role = Client, fullName = ''Ana'',
                  email = ''ana@example.com''\<rparr>"

definition shopProject :: project where
  "shopProject = \<lparr>project_id = 10, clientId = 2, project_name = ''Tienda'', price = 1000,
                   project_status = ProjectPending\<rparr>"

definition firstStage :: paymentStage where
  "firstStage = \<lparr>stage_id = 1, stage_projectId = 10, stageName = ''Anticipo'',
                  stagePercentage = Finite 50, amount = Finite 500, requiredProgress = 0,
                  stage_status = Available, paymentMethod = None, proofFileUrl = None,
                  paymentData = None, paidAt = None, approvedBy = None, approvedAt = None\<rparr>"

definition secondStage :: paymentStage where
  "secondStage = \<lparr>stage_id = 2, stage_projectId = 10, stageName = ''Entrega'',
                   stagePercentage = Finite 50, amount = Finite 500, requiredProgress = 50,
                   stage_status = Pending, paymentMethod = None, proofFileUrl = None,
                   paymentData = None, paidAt = None, approvedBy = None, approvedAt = None\<rparr>"

definition submittedStage :: paymentStage where
  "submittedStage =
     firstStage\<lparr>stage_status := PendingVerification, paymentMethod := Some ''transferencia'',
                 proofFileUrl := Some ''comprobante_1_1700_recibo.png'',
                 paymentData :=
                   Some [(''confirmedBy'', JNum 2), (''confirmedAt'', JDate 1701),
                         (''method'', JStr ''transferencia''),
                         (''fileInfo'',
                          JObj [(''fileName'', JStr ''recibo.png''), (''fileSize'', JNum 2048),
                                (''fileType'', JStr ''image/png'')]),
                         (''originalFileName'', JStr ''recibo.png'')]\<rparr>"

definition paidStage :: paymentStage where
  "paidStage = submittedStage\<lparr>stage_status := Paid, paidAt := Some 1800,
                               approvedBy := Some 1, approvedAt := Some 1801\<rparr>"

definition receipt :: uploadedFile where
  "receipt = \<lparr>originalname = ''recibo.png'', file_size = 2048, mimetype = ''image/png''\<rparr>"

definition firstOffer :: budgetNegotiation where
  "firstOffer = \<lparr>neg_id = 1, neg_projectId = 10, proposedBy = 2, originalPrice = 1000,
                  proposedPrice = 800, neg_message = Some ''descuento'', neg_status = NegPending\<rparr>"

definition emptyShop :: state where
  "emptyShop = \<lparr>users = [adminUser, clientUser], projects = [shopProject], paymentStages = [],
                 budgetNegotiations = [], notifications = [], projectTimeline = [], outbox = []\<rparr>"

definition shop :: state where
  "shop = emptyShop\<lparr>paymentStages := [firstStage, secondStage], budgetNegotiations := [firstOffer]\<rparr>"

definition shopSubmitted :: state where
  "shopSubmitted = shop\<lparr>paymentStages := [submittedStage, secondStage]\<rparr>"

definition shopPaid :: state where
  "shopPaid = shop\<lparr>paymentStages := [secondStage, paidStage]\<rparr>"

section \<open>Evaluation and store lemmas\<close>

lemmas sample_defs = noFailures_def notificationsFail_def mailFails_def adminUser_def clientUser_def
  shopProject_def firstStage_def secondStage_def submittedStage_def paidStage_def firstOffer_def
  emptyShop_def shop_def shopSubmitted_def shopPaid_def receipt_def

lemmas store_defs = getProject_def getUserById_def getUsersByRole_def selectPaymentStage_def
  getPaymentStages_def selectBudgetNegotiation_def updateProject_def updatePaymentStage_def
  updateBudgetNegotiation_def createPaymentStage_def createBudgetNegotiation_def
  hasProjectTimeline_def createProjectTimeline_def createNotification_def sendEmail_def
  trySendEmail_def next_id_def

lemma find_update_row:
  assumes "\<And>x. key (f x) = key x"
  shows "find (\<lambda>x. key x = k) (map (\<lambda>x. if key x = k then f x else x) xs)
         = map_option f (find (\<lambda>x. key x = k) xs)"
  using assms by (induction xs) auto

lemma select_after_updatePaymentStage:
  assumes "\<And>st. stage_id (f st) = stage_id st"
  shows "updatePaymentStage sid f s =
         (s\<lparr>paymentStages := map (\<lambda>st. if stage_id st = sid then f st else st) (paymentStages s)\<rparr>,
          map_option f (selectPaymentStage sid s))"
  using find_update_row [where key = stage_id and f = f, OF assms]
  by (simp add: updatePaymentStage_def selectPaymentStage_def Let_def)

section \<open>Approval and rejection\<close>

text \<open>
  Claim C1. For every payment stage, approve and reject succeed only when the status of the
  stage is exactly \<^verbatim>\<open>pending_verification\<close>: on a stage in any other status each answers
  with the InvalidState error (400) and returns the store as it found it, so no field of
  the stage, and nothing else, has changed; and a run of either that succeeds started from
  a stage in \<^verbatim>\<open>pending_verification\<close>.
\<close>

theorem approve_reject_require_pending_verification:
  "(selectPaymentStage stageId s = Some stage \<and> stage_status stage \<noteq> PendingVerification \<longrightarrow>
      approve_payment e u stageId paidNow approvedNow s = (s, Inl InvalidState) \<and>
      reject_payment e u stageId reason rejectedAt s = (s, Inl InvalidState))
   \<and> (approve_payment e u stageId paidNow approvedNow s = (s', Inr r) \<longrightarrow>
        (\<exists>st. selectPaymentStage stageId s = Some st \<and> stage_status st = PendingVerification))
   \<and> (reject_payment e u stageId reason rejectedAt s = (s'', Inr r') \<longrightarrow>
        (\<exists>st. selectPaymentStage stageId s = Some st \<and> stage_status st = PendingVerification))"
  by (auto simp: approve_payment_def reject_payment_def Let_def
           split: option.splits if_splits prod.splits)

lemma approve_shopSubmitted:
  "approve_payment noFailures adminUser 1 1800 1801 shopSubmitted =
     (shopSubmitted\<lparr>paymentStages := [paidStage, secondStage],
        notifications := [\<lparr>notif_userId = 2, notif_title = approvedTitle,
           notif_message = approvedMessage submittedStage, notif_type = Success, isRead = False\<rparr>]\<rparr>,
      Inr (Some paidStage))"
  by (simp add: approve_payment_def store_defs sample_defs)

lemma reject_shopSubmitted:
  "reject_payment noFailures adminUser 1 ''comprobante ilegible'' 1800 shopSubmitted =
     (shopSubmitted\<lparr>paymentStages :=
         [submittedStage\<lparr>stage_status := Available, paymentMethod := None, proofFileUrl := None,
            paymentData := Some (rejectionData (paymentData submittedStage) adminUser 1800
                                   ''comprobante ilegible'')\<rparr>, secondStage],
        notifications := [\<lparr>notif_userId = 2, notif_title = rejectedTitle,
           notif_message = rejectedMessage submittedStage ''comprobante ilegible'',
           notif_type = Error, isRead = False\<rparr>]\<rparr>,
      Inr (Some (submittedStage\<lparr>stage_status := Available, paymentMethod := None, proofFileUrl := None,
            paymentData := Some (rejectionData (paymentData submittedStage) adminUser 1800
                                   ''comprobante ilegible'')\<rparr>)))"
  by (simp add: reject_payment_def store_defs sample_defs)

theorem approve_reject_require_pending_verification_witness:
  "selectPaymentStage 1 shop = Some firstStage
   \<and> stage_status firstStage \<noteq> PendingVerification
   \<and> approve_payment noFailures adminUser 1 1800 1801 shop = (shop, Inl InvalidState)
   \<and> reject_payment noFailures adminUser 1 ''comprobante ilegible'' 1800 shop = (shop, Inl InvalidState)
   \<and> isl (snd (approve_payment noFailures adminUser 1 1800 1801 shop))
   \<and> \<not> isl (snd (approve_payment noFailures adminUser 1 1800 1801 shopSubmitted))
   \<and> \<not> isl (snd (reject_payment noFailures adminUser 1 ''comprobante ilegible'' 1800 shopSubmitted))
   \<and> map_option stage_status (selectPaymentStage 1 shopSubmitted) = Some PendingVerification"
proof -
  have sel: "selectPaymentStage 1 shop = Some firstStage"
    by (simp add: selectPaymentStage_def shop_def firstStage_def)
  have st: "stage_status firstStage \<noteq> PendingVerification"
    by (simp add: firstStage_def)
  note main = approve_reject_require_pending_verification
    [of 1 shop firstStage noFailures adminUser 1800 1801 "''comprobante ilegible''" 1800]
  from main sel st
  have fail: "approve_payment noFailures adminUser 1 1800 1801 shop = (shop, Inl InvalidState)
     \<and> reject_payment noFailures adminUser 1 ''comprobante ilegible'' 1800 shop = (shop, Inl InvalidState)"
    by blast
  note ok = approve_reject_require_pending_verification
    [of 1 shopSubmitted _ noFailures adminUser 1800 1801 "''comprobante ilegible''" 1800,
     THEN conjunct2, THEN conjunct1, rule_format, OF approve_shopSubmitted]
  from ok have "map_option stage_status (selectPaymentStage 1 shopSubmitted) = Some PendingVerification"
    by auto
  with sel st fail show ?thesis
    by (simp add: approve_shopSubmitted reject_shopSubmitted)
qed


text \<open>The row that an update by identifier leaves behind.\<close>

lemma updated_row_facts:
  assumes "selectPaymentStage sid s = Some stage" and "\<And>st. stage_id (f st) = stage_id st"
  shows "updatePaymentStage sid f s =
           (s\<lparr>paymentStages := map (\<lambda>st. if stage_id st = sid then f st else st) (paymentStages s)\<rparr>,
            Some (f stage))"
    and "selectPaymentStage sid
           (s\<lparr>paymentStages := map (\<lambda>st. if stage_id st = sid then f st else st) (paymentStages s)\<rparr>)
         = Some (f stage)"
proof -
  show "updatePaymentStage sid f s =
           (s\<lparr>paymentStages := map (\<lambda>st. if stage_id st = sid then f st else st) (paymentStages s)\<rparr>,
            Some (f stage))"
    using assms by (simp add: select_after_updatePaymentStage)
  then show "selectPaymentStage sid
           (s\<lparr>paymentStages := map (\<lambda>st. if stage_id st = sid then f st else st) (paymentStages s)\<rparr>)
         = Some (f stage)"
    by (simp add: updatePaymentStage_def Let_def)
qed

lemma select_ignores_notifications [simp]:
  "selectPaymentStage sid (s\<lparr>notifications := ns\<rparr>) = selectPaymentStage sid s"
  by (simp add: selectPaymentStage_def)

text \<open>
  Claim C5. For every stage in \<^verbatim>\<open>pending_verification\<close> (whose project and client exist, the
  notifications table accepting the insert), approve answers with the updated stage, whose
  status is \<^verbatim>\<open>paid\<close> and which records \<^verbatim>\<open>paidAt\<close>, \<^verbatim>\<open>approvedBy\<close> and \<^verbatim>\<open>approvedAt\<close>; the
  notifications table grows by exactly one row, the "approved" notification, addressed to
  the client of the project.
\<close>

theorem approve_marks_paid_and_notifies_client:
  assumes "selectPaymentStage stageId s = Some stage"
    and "stage_status stage = PendingVerification"
    and "getProject (stage_projectId stage) s = Some project"
    and "getUserById (clientId project) s = Some client"
    and "\<not> notificationsDown e"
  shows "\<exists>s' updated.
           approve_payment e u stageId paidNow approvedNow s = (s', Inr (Some updated))
         \<and> selectPaymentStage stageId s' = Some updated
         \<and> stage_status updated = Paid
         \<and> paidAt updated = Some paidNow
         \<and> approvedBy updated = Some (user_id u)
         \<and> approvedAt updated = Some approvedNow
         \<and> notifications s' = notifications s @
               [\<lparr>notif_userId = clientId project, notif_title = approvedTitle,
                 notif_message = approvedMessage stage, notif_type = Success, isRead = False\<rparr>]"
proof -
  let ?f = "\<lambda>st. st\<lparr>stage_status := Paid, paidAt := Some paidNow,
                       approvedBy := Some (user_id u), approvedAt := Some approvedNow\<rparr>"
  have keep: "\<And>st. stage_id (?f st) = stage_id st" by simp
  note upd = updated_row_facts [of stageId s stage ?f, OF assms(1) keep]
  show ?thesis
    using assms upd
    by (simp add: approve_payment_def createNotification_def)
qed

theorem approve_marks_paid_and_notifies_client_witness:
  "selectPaymentStage 1 shopSubmitted = Some submittedStage
   \<and> stage_status submittedStage = PendingVerification
   \<and> getProject (stage_projectId submittedStage) shopSubmitted = Some shopProject
   \<and> getUserById (clientId shopProject) shopSubmitted = Some clientUser
   \<and> \<not> notificationsDown noFailures
   \<and> snd (approve_payment noFailures adminUser 1 1800 1801 shopSubmitted) = Inr (Some paidStage)
   \<and> selectPaymentStage 1 (fst (approve_payment noFailures adminUser 1 1800 1801 shopSubmitted))
       = Some paidStage
   \<and> stage_status paidStage = Paid
   \<and> notifications (fst (approve_payment noFailures adminUser 1 1800 1801 shopSubmitted)) =
       [\<lparr>notif_userId = 2, notif_title = approvedTitle,
         notif_message = approvedMessage submittedStage, notif_type = Success, isRead = False\<rparr>]"
proof -
  have h1: "selectPaymentStage 1 shopSubmitted = Some submittedStage"
    by (simp add: selectPaymentStage_def sample_defs)
  have h2: "stage_status submittedStage = PendingVerification"
    by (simp add: sample_defs)
  have h3: "getProject (stage_projectId submittedStage) shopSubmitted = Some shopProject"
    by (simp add: getProject_def sample_defs)
  have h4: "getUserById (clientId shopProject) shopSubmitted = Some clientUser"
    by (simp add: getUserById_def sample_defs)
  have h5: "\<not> notificationsDown noFailures"
    by (simp add: noFailures_def)
  from approve_marks_paid_and_notifies_client [OF h1 h2 h3 h4 h5, of adminUser 1800 1801]
  obtain s' updated where
    run: "approve_payment noFailures adminUser 1 1800 1801 shopSubmitted = (s', Inr (Some updated))"
    and sel: "selectPaymentStage 1 s' = Some updated"
    and paid: "stage_status updated = Paid"
    and ns: "notifications s' = notifications shopSubmitted @
               [\<lparr>notif_userId = clientId shopProject, notif_title = approvedTitle,
                 notif_message = approvedMessage submittedStage, notif_type = Success,
                 isRead = False\<rparr>]"
    by (elim exE conjE) (rule that)
  from run approve_shopSubmitted have eq: "updated = paidStage" by simp
  have empty: "notifications shopSubmitted = []" and cid: "clientId shopProject = 2"
    by (simp_all add: sample_defs)
  show ?thesis
    using h1 h2 h3 h4 h5 run sel paid ns eq empty cid by simp
qed


text \<open>The metadata written by a rejection, and the text of its notification.\<close>

lemma rejectionData_keeps:
  assumes "k \<noteq> ''rejectedBy''" and "k \<noteq> ''rejectedAt''" and "k \<noteq> ''rejectionReason''"
  shows "map_of (rejectionData previous u rejectedAt reason) k =
         map_of (case previous of None \<Rightarrow> [] | Some kvs \<Rightarrow> kvs) k"
  using assms by (simp add: rejectionData_def update_conv')

lemma rejectionData_adds:
  "map_of (rejectionData previous u rejectedAt reason) ''rejectedBy'' = Some (JNum (user_id u))"
  "map_of (rejectionData previous u rejectedAt reason) ''rejectedAt'' = Some (JDate rejectedAt)"
  "map_of (rejectionData previous u rejectedAt reason) ''rejectionReason'' = Some (JStr reason)"
  by (simp_all add: rejectionData_def update_conv')

lemma rejectedMessage_has_reason: "sublist reason (rejectedMessage stage reason)"
  unfolding rejectedMessage_def sublist_def
  by (rule exI [of _ "''Tu comprobante de pago para '' @ [CHR 0x22] @ stageName stage @ [CHR 0x22]
     @ '' fue rechazado. Motivo: ''"],
      rule exI [of _ "''. Por favor, env'' @ [CHR 0xC3, CHR 0xAD] @ ''a un nuevo comprobante.''"])
     simp

text \<open>
  Claim C4. For every stage in \<^verbatim>\<open>pending_verification\<close> (whose project exists, the
  notifications table accepting the insert), reject sets the status back to \<^verbatim>\<open>available\<close>,
  clears \<^verbatim>\<open>paymentMethod\<close> and \<^verbatim>\<open>proofFileUrl\<close>, keeps every field of the stored payment
  metadata while adding the identifier of the rejecting admin, the time and the reason, and
  creates one notification for the client of the project whose message contains the reason
  as given, for instance "comprobante ilegible".
\<close>

theorem reject_returns_stage_to_available:
  assumes "selectPaymentStage stageId s = Some stage"
    and "stage_status stage = PendingVerification"
    and "getProject (stage_projectId stage) s = Some project"
    and "\<not> notificationsDown e"
  shows "\<exists>s' updated data n.
           reject_payment e u stageId reason rejectedAt s = (s', Inr (Some updated))
         \<and> selectPaymentStage stageId s' = Some updated
         \<and> stage_status updated = Available
         \<and> paymentMethod updated = None
         \<and> proofFileUrl updated = None
         \<and> paymentData updated = Some data
         \<and> (\<forall>previous k v.
               paymentData stage = Some previous \<and> map_of previous k = Some v
               \<and> k \<notin> {''rejectedBy'', ''rejectedAt'', ''rejectionReason''}
               \<longrightarrow> map_of data k = Some v)
         \<and> map_of data ''rejectedBy'' = Some (JNum (user_id u))
         \<and> map_of data ''rejectedAt'' = Some (JDate rejectedAt)
         \<and> map_of data ''rejectionReason'' = Some (JStr reason)
         \<and> notifications s' = notifications s @ [n]
         \<and> notif_userId n = clientId project
         \<and> notif_type n = Error
         \<and> sublist reason (notif_message n)"
proof -
  let ?data = "rejectionData (paymentData stage) u rejectedAt reason"
  let ?f = "\<lambda>st. st\<lparr>stage_status := Available, paymentMethod := None, proofFileUrl := None,
                       paymentData := Some ?data\<rparr>"
  let ?n = "\<lparr>notif_userId = clientId project, notif_title = rejectedTitle,
             notif_message = rejectedMessage stage reason, notif_type = Error, isRead = False\<rparr>"
  let ?s' = "s\<lparr>paymentStages :=
                  map (\<lambda>st. if stage_id st = stageId then ?f st else st) (paymentStages s),
                notifications := notifications s @ [?n]\<rparr>"
  have keep: "\<And>st. stage_id (?f st) = stage_id st" by simp
  note upd = updated_row_facts [of stageId s stage ?f, OF assms(1) keep]
  have run: "reject_payment e u stageId reason rejectedAt s = (?s', Inr (Some (?f stage)))"
    using assms upd(1) by (simp add: reject_payment_def createNotification_def)
  have sel: "selectPaymentStage stageId ?s' = Some (?f stage)"
    using upd(2) by (simp add: selectPaymentStage_def)
  have kept: "\<forall>previous k v.
               paymentData stage = Some previous \<and> map_of previous k = Some v
               \<and> k \<notin> {''rejectedBy'', ''rejectedAt'', ''rejectionReason''}
               \<longrightarrow> map_of ?data k = Some v"
    by (auto simp: rejectionData_keeps)
  show ?thesis
    apply (rule exI [of _ ?s'], rule exI [of _ "?f stage"], rule exI [of _ ?data],
           rule exI [of _ ?n])
    using run sel kept rejectionData_adds [of "paymentData stage" u rejectedAt reason]
      rejectedMessage_has_reason [of reason stage]
    by simp
qed

theorem reject_returns_stage_to_available_witness:
  "selectPaymentStage 1 shopSubmitted = Some submittedStage
   \<and> stage_status submittedStage = PendingVerification
   \<and> getProject (stage_projectId submittedStage) shopSubmitted = Some shopProject
   \<and> \<not> notificationsDown noFailures
   \<and> map_option stage_status
        (selectPaymentStage 1
           (fst (reject_payment noFailures adminUser 1 ''comprobante ilegible'' 1800 shopSubmitted)))
       = Some Available
   \<and> map_option paymentMethod
        (selectPaymentStage 1
           (fst (reject_payment noFailures adminUser 1 ''comprobante ilegible'' 1800 shopSubmitted)))
       = Some None
   \<and> Option.bind (Option.bind
          (selectPaymentStage 1
             (fst (reject_payment noFailures adminUser 1 ''comprobante ilegible'' 1800 shopSubmitted)))
          paymentData) (\<lambda>data. map_of data ''method'')
       = Some (JStr ''transferencia'')
   \<and> Option.bind (Option.bind
          (selectPaymentStage 1
             (fst (reject_payment noFailures adminUser 1 ''comprobante ilegible'' 1800 shopSubmitted)))
          paymentData) (\<lambda>data. map_of data ''rejectionReason'')
       = Some (JStr ''comprobante ilegible'')
   \<and> map notif_userId
        (notifications
           (fst (reject_payment noFailures adminUser 1 ''comprobante ilegible'' 1800 shopSubmitted)))
       = [2]
   \<and> sublist ''comprobante ilegible''
        (notif_message (last (notifications
           (fst (reject_payment noFailures adminUser 1 ''comprobante ilegible'' 1800 shopSubmitted)))))"
proof -
  have h1: "selectPaymentStage 1 shopSubmitted = Some submittedStage"
    by (simp add: selectPaymentStage_def sample_defs)
  have h2: "stage_status submittedStage = PendingVerification"
    by (simp add: sample_defs)
  have h3: "getProject (stage_projectId submittedStage) shopSubmitted = Some shopProject"
    by (simp add: getProject_def sample_defs)
  have h4: "\<not> notificationsDown noFailures"
    by (simp add: noFailures_def)
  have old: "paymentData submittedStage \<noteq> None
             \<and> map_of (the (paymentData submittedStage)) ''method'' = Some (JStr ''transferencia'')"
    by (simp add: sample_defs)
  have empty: "notifications shopSubmitted = []" and cid: "clientId shopProject = 2"
    by (simp_all add: sample_defs)
  from reject_returns_stage_to_available
         [OF h1 h2 h3 h4, of adminUser "''comprobante ilegible''" 1800]
  obtain s' updated data n where
    run: "reject_payment noFailures adminUser 1 ''comprobante ilegible'' 1800 shopSubmitted
            = (s', Inr (Some updated))"
    and facts: "selectPaymentStage 1 s' = Some updated" "stage_status updated = Available"
      "paymentMethod updated = None" "paymentData updated = Some data"
      "map_of data ''rejectionReason'' = Some (JStr ''comprobante ilegible'')"
      "notifications s' = notifications shopSubmitted @ [n]"
      "notif_userId n = clientId shopProject"
      "sublist ''comprobante ilegible'' (notif_message n)"
    and kept: "\<forall>previous k v.
               paymentData submittedStage = Some previous \<and> map_of previous k = Some v
               \<and> k \<notin> {''rejectedBy'', ''rejectedAt'', ''rejectionReason''}
               \<longrightarrow> map_of data k = Some v"
    by (elim exE conjE) (rule that)
  from kept old have "map_of data ''method'' = Some (JStr ''transferencia'')"
    by auto
  then show ?thesis
    using h1 h2 h3 h4 run facts empty cid by simp
qed

section \<open>Proof of payment\<close>

text \<open>The notifications and the mails of the submission leave the table of stages alone.\<close>

lemma select_by_table:
  "paymentStages s1 = paymentStages s2 \<Longrightarrow> selectPaymentStage sid s1 = selectPaymentStage sid s2"
  by (simp add: selectPaymentStage_def)

lemma notifyAdmins_paymentStages:
  "paymentStages (fst (notifyAdmins e title msg admins s)) = paymentStages s"
  by (induction admins arbitrary: s) (auto simp: createNotification_def)

lemma notifyAdmins_up: "\<not> notificationsDown e \<Longrightarrow> snd (notifyAdmins e title msg admins s)"
  by (induction admins arbitrary: s) (auto simp: createNotification_def)


lemma sendProofMails_paymentStages:
  "paymentStages (sendProofMails e client project stage payMethod att s) = paymentStages s"
  by (simp add: sendProofMails_def sendEmail_def)

text \<open>The three lookups of the proof submission succeed: what the handler computes.\<close>

lemma confirm_payment_found:
  assumes "selectPaymentStage stageId s = Some stage"
    and "getProject (stage_projectId stage) s = Some project"
    and "getUserById (clientId project) s = Some client"
  shows "paymentStages (fst (confirm_payment e u stageId payMethod proofFile info dateNow confirmedAt s))
         = map (\<lambda>st. if stage_id st = stageId
                      then st\<lparr>paymentMethod := Some payMethod,
                              proofFileUrl := proofFileName stageId dateNow proofFile info,
                              stage_status := PendingVerification,
                              paymentData :=
                                Some (confirmPaymentData u confirmedAt payMethod proofFile info)\<rparr>
                      else st) (paymentStages s)"
    and "snd (confirm_payment e u stageId payMethod proofFile info dateNow confirmedAt s) =
           (if snd (notifyAdmins e proofReceivedTitle
                      (proofReceivedMessage client stage payMethod proofFile)
                      (getUsersByRole Admin s) s)
            then Inr (Some (stage\<lparr>paymentMethod := Some payMethod,
                              proofFileUrl := proofFileName stageId dateNow proofFile info,
                              stage_status := PendingVerification,
                              paymentData :=
                                Some (confirmPaymentData u confirmedAt payMethod proofFile info)\<rparr>))
            else Inl InternalError)"
proof -
  let ?f = "\<lambda>st. st\<lparr>paymentMethod := Some payMethod,
                       proofFileUrl := proofFileName stageId dateNow proofFile info,
                       stage_status := PendingVerification,
                       paymentData := Some (confirmPaymentData u confirmedAt payMethod proofFile info)\<rparr>"
  let ?s1 = "s\<lparr>paymentStages := map (\<lambda>st. if stage_id st = stageId then ?f st else st) (paymentStages s)\<rparr>"
  let ?na = "notifyAdmins e proofReceivedTitle (proofReceivedMessage client stage payMethod proofFile)
               (getUsersByRole Admin ?s1) ?s1"
  have keep: "\<And>st. stage_id (?f st) = stage_id st" by simp
  note upd = updated_row_facts [of stageId s stage ?f, OF assms(1) keep]
  have run: "confirm_payment e u stageId payMethod proofFile info dateNow confirmedAt s =
          (if \<not> snd ?na then (fst ?na, Inl InternalError)
           else (sendProofMails e client project stage payMethod (proofAttachment proofFile info) (fst ?na),
                 Inr (Some (?f stage))))"
    using assms upd(1) by (simp add: confirm_payment_def split_beta)
  have tbl: "paymentStages (fst ?na) = paymentStages ?s1"
    by (rule notifyAdmins_paymentStages)
  show "paymentStages (fst (confirm_payment e u stageId payMethod proofFile info dateNow confirmedAt s))
         = map (\<lambda>st. if stage_id st = stageId then ?f st else st) (paymentStages s)"
    using tbl by (simp add: run sendProofMails_paymentStages)
  have admins: "getUsersByRole Admin ?s1 = getUsersByRole Admin s"
    by (simp add: getUsersByRole_def)
  have flag: "snd ?na = snd (notifyAdmins e proofReceivedTitle
                      (proofReceivedMessage client stage payMethod proofFile)
                      (getUsersByRole Admin s) s)"
  proof (cases "notificationsDown e")
    case True
    then show ?thesis
      by (cases "getUsersByRole Admin s") (simp_all add: admins createNotification_def)
  next
    case False
    then show ?thesis by (simp add: notifyAdmins_up)
  qed
  show "snd (confirm_payment e u stageId payMethod proofFile info dateNow confirmedAt s) =
           (if snd (notifyAdmins e proofReceivedTitle
                      (proofReceivedMessage client stage payMethod proofFile)
                      (getUsersByRole Admin s) s)
            then Inr (Some (?f stage)) else Inl InternalError)"
    using flag by (simp add: run)
qed

lemma confirm_payment_row:
  assumes "selectPaymentStage stageId s = Some stage"
    and "getProject (stage_projectId stage) s = Some project"
    and "getUserById (clientId project) s = Some client"
  shows "selectPaymentStage stageId
           (fst (confirm_payment e u stageId payMethod proofFile info dateNow confirmedAt s))
         = Some (stage\<lparr>paymentMethod := Some payMethod,
                       proofFileUrl := proofFileName stageId dateNow proofFile info,
                       stage_status := PendingVerification,
                       paymentData :=
                         Some (confirmPaymentData u confirmedAt payMethod proofFile info)\<rparr>)"
proof -
  let ?f = "\<lambda>st. st\<lparr>paymentMethod := Some payMethod,
                       proofFileUrl := proofFileName stageId dateNow proofFile info,
                       stage_status := PendingVerification,
                       paymentData := Some (confirmPaymentData u confirmedAt payMethod proofFile info)\<rparr>"
  have keep: "\<And>st. stage_id (?f st) = stage_id st" by simp
  have "selectPaymentStage stageId
           (fst (confirm_payment e u stageId payMethod proofFile info dateNow confirmedAt s))
        = selectPaymentStage stageId
           (s\<lparr>paymentStages := map (\<lambda>st. if stage_id st = stageId then ?f st else st) (paymentStages s)\<rparr>)"
    by (rule select_by_table) (simp add: confirm_payment_found(1) [OF assms])
  then show ?thesis
    using updated_row_facts(2) [of stageId s stage ?f, OF assms(1) keep] by simp
qed

text \<open>
  Claim C2 as stated has every submission record a synthesized proof-file reference name.
  A submission that carries neither a file nor a file descriptor moves the stage to
  \<^verbatim>\<open>pending_verification\<close> and records no reference: \<^verbatim>\<open>proofFileUrl\<close> stays \<^verbatim>\<open>null\<close>.
\<close>

theorem confirm_payment_without_attachment_counterexample:
  "map_option stage_status
     (selectPaymentStage 1
        (fst (confirm_payment noFailures clientUser 1 ''transferencia'' None None 1700 1701 shop)))
     = Some PendingVerification
   \<and> map_option proofFileUrl
     (selectPaymentStage 1
        (fst (confirm_payment noFailures clientUser 1 ''transferencia'' None None 1700 1701 shop)))
     = Some None"
proof -
  have h1: "selectPaymentStage 1 shop = Some firstStage"
    by (simp add: selectPaymentStage_def sample_defs)
  have h2: "getProject (stage_projectId firstStage) shop = Some shopProject"
    by (simp add: getProject_def sample_defs)
  have h3: "getUserById (clientId shopProject) shop = Some clientUser"
    by (simp add: getUserById_def sample_defs)
  show ?thesis
    by (simp add: confirm_payment_row [OF h1 h2 h3] proofFileName_def)
qed

text \<open>
  Claim C2, amended. For every existing stage whose project and client exist, submitting
  proof of payment sets the status to \<^verbatim>\<open>pending_verification\<close> whatever it was before,
  and records the payment method, the identifier of the submitter and a timestamp; the
  proof-file reference is a synthesized name (\<^verbatim>\<open>comprobante_\<close>, the stage, the time, then the
  name or the extension of the file) when the request carries a file or a file descriptor,
  and \<^verbatim>\<open>null\<close> when it carries neither. If the stage, its project or the client of the project
  does not exist the operation answers NotFound and the store is as it was.
\<close>

theorem confirm_payment_submits_proof:
  "(selectPaymentStage stageId s = Some stage
      \<and> getProject (stage_projectId stage) s = Some project
      \<and> getUserById (clientId project) s = Some client \<longrightarrow>
      (\<exists>updated data.
          selectPaymentStage stageId
            (fst (confirm_payment e u stageId payMethod proofFile info dateNow confirmedAt s)) = Some updated
        \<and> stage_status updated = PendingVerification
        \<and> paymentMethod updated = Some payMethod
        \<and> proofFileUrl updated = proofFileName stageId dateNow proofFile info
        \<and> paymentData updated = Some data
        \<and> map_of data ''confirmedBy'' = Some (JNum (user_id u))
        \<and> map_of data ''confirmedAt'' = Some (JDate confirmedAt)
        \<and> map_of data ''method'' = Some (JStr payMethod)))
   \<and> (proofFile \<noteq> None \<or> info \<noteq> None \<longrightarrow>
        (\<exists>rest. proofFileName stageId dateNow proofFile info =
                  Some (''comprobante_'' @ show_int stageId @ ''_'' @ show_nat dateNow @ rest)))
   \<and> (proofFile = None \<and> info = None \<longrightarrow> proofFileName stageId dateNow proofFile info = None)
   \<and> (selectPaymentStage stageId s = None \<longrightarrow>
        confirm_payment e u stageId payMethod proofFile info dateNow confirmedAt s
          = (s, Inl (NotFound StageRow)))
   \<and> (selectPaymentStage stageId s = Some stage \<and> getProject (stage_projectId stage) s = None \<longrightarrow>
        confirm_payment e u stageId payMethod proofFile info dateNow confirmedAt s
          = (s, Inl (NotFound ProjectRow)))
   \<and> (selectPaymentStage stageId s = Some stage
        \<and> getProject (stage_projectId stage) s = Some project
        \<and> getUserById (clientId project) s = None \<longrightarrow>
        confirm_payment e u stageId payMethod proofFile info dateNow confirmedAt s
          = (s, Inl (NotFound ClientRow)))"
proof (intro conjI impI)
  assume found: "selectPaymentStage stageId s = Some stage
      \<and> getProject (stage_projectId stage) s = Some project
      \<and> getUserById (clientId project) s = Some client"
  then have row: "selectPaymentStage stageId
           (fst (confirm_payment e u stageId payMethod proofFile info dateNow confirmedAt s))
         = Some (stage\<lparr>paymentMethod := Some payMethod,
                       proofFileUrl := proofFileName stageId dateNow proofFile info,
                       stage_status := PendingVerification,
                       paymentData :=
                         Some (confirmPaymentData u confirmedAt payMethod proofFile info)\<rparr>)"
    by (simp add: confirm_payment_row)
  show "\<exists>updated data.
          selectPaymentStage stageId
            (fst (confirm_payment e u stageId payMethod proofFile info dateNow confirmedAt s)) = Some updated
        \<and> stage_status updated = PendingVerification
        \<and> paymentMethod updated = Some payMethod
        \<and> proofFileUrl updated = proofFileName stageId dateNow proofFile info
        \<and> paymentData updated = Some data
        \<and> map_of data ''confirmedBy'' = Some (JNum (user_id u))
        \<and> map_of data ''confirmedAt'' = Some (JDate confirmedAt)
        \<and> map_of data ''method'' = Some (JStr payMethod)"
    by (simp add: row confirmPaymentData_def)
next
  assume "proofFile \<noteq> None \<or> info \<noteq> None"
  then show "\<exists>rest. proofFileName stageId dateNow proofFile info =
                  Some (''comprobante_'' @ show_int stageId @ ''_'' @ show_nat dateNow @ rest)"
    by (cases proofFile; cases info) (auto simp: proofFileName_def)
next
  assume "proofFile = None \<and> info = None"
  then show "proofFileName stageId dateNow proofFile info = None"
    by (simp add: proofFileName_def)
next
  assume "selectPaymentStage stageId s = None"
  then show "confirm_payment e u stageId payMethod proofFile info dateNow confirmedAt s
          = (s, Inl (NotFound StageRow))"
    by (simp add: confirm_payment_def)
next
  assume "selectPaymentStage stageId s = Some stage \<and> getProject (stage_projectId stage) s = None"
  then show "confirm_payment e u stageId payMethod proofFile info dateNow confirmedAt s
          = (s, Inl (NotFound ProjectRow))"
    by (simp add: confirm_payment_def)
next
  assume "selectPaymentStage stageId s = Some stage
        \<and> getProject (stage_projectId stage) s = Some project
        \<and> getUserById (clientId project) s = None"
  then show "confirm_payment e u stageId payMethod proofFile info dateNow confirmedAt s
          = (s, Inl (NotFound ClientRow))"
    by (simp add: confirm_payment_def)
qed


lemma proofFileName_receipt:
  "proofFileName 1 1900 (Some receipt) None = Some ''comprobante_1_1900_recibo.png''"
  by (simp add: proofFileName_def show_int_def show_nat.simps receipt_def)

theorem confirm_payment_submits_proof_witness:
  "selectPaymentStage 1 shopPaid = Some paidStage
   \<and> getProject (stage_projectId paidStage) shopPaid = Some shopProject
   \<and> getUserById (clientId shopProject) shopPaid = Some clientUser
   \<and> stage_status paidStage = Paid
   \<and> map_option stage_status
        (selectPaymentStage 1
           (fst (confirm_payment noFailures clientUser 1 ''transferencia'' (Some receipt) None
                   1900 1901 shopPaid)))
       = Some PendingVerification
   \<and> map_option paymentMethod
        (selectPaymentStage 1
           (fst (confirm_payment noFailures clientUser 1 ''transferencia'' (Some receipt) None
                   1900 1901 shopPaid)))
       = Some (Some ''transferencia'')
   \<and> map_option proofFileUrl
        (selectPaymentStage 1
           (fst (confirm_payment noFailures clientUser 1 ''transferencia'' (Some receipt) None
                   1900 1901 shopPaid)))
       = Some (Some ''comprobante_1_1900_recibo.png'')
   \<and> Option.bind (Option.bind
          (selectPaymentStage 1
             (fst (confirm_payment noFailures clientUser 1 ''transferencia'' (Some receipt) None
                     1900 1901 shopPaid)))
          paymentData) (\<lambda>data. map_of data ''confirmedAt'')
       = Some (JDate 1901)
   \<and> proofFileName 1 1900 None None = None
   \<and> selectPaymentStage 99 shop = None
   \<and> confirm_payment noFailures clientUser 99 ''transferencia'' (Some receipt) None 1900 1901 shop
       = (shop, Inl (NotFound StageRow))
   \<and> getProject (stage_projectId firstStage) (shop\<lparr>projects := []\<rparr>) = None
   \<and> confirm_payment noFailures clientUser 1 ''transferencia'' (Some receipt) None 1900 1901
         (shop\<lparr>projects := []\<rparr>)
       = (shop\<lparr>projects := []\<rparr>, Inl (NotFound ProjectRow))
   \<and> getUserById (clientId shopProject) (shop\<lparr>users := [adminUser]\<rparr>) = None
   \<and> confirm_payment noFailures clientUser 1 ''transferencia'' (Some receipt) None 1900 1901
         (shop\<lparr>users := [adminUser]\<rparr>)
       = (shop\<lparr>users := [adminUser]\<rparr>, Inl (NotFound ClientRow))"
proof -
  have h1: "selectPaymentStage 1 shopPaid = Some paidStage"
    by (simp add: selectPaymentStage_def sample_defs)
  have h2: "getProject (stage_projectId paidStage) shopPaid = Some shopProject"
    by (simp add: getProject_def sample_defs)
  have h3: "getUserById (clientId shopProject) shopPaid = Some clientUser"
    by (simp add: getUserById_def sample_defs)
  have h4: "stage_status paidStage = Paid"
    by (simp add: sample_defs)
  have h5: "selectPaymentStage 99 shop = None"
    by (simp add: selectPaymentStage_def sample_defs)
  have h6: "selectPaymentStage 1 (shop\<lparr>projects := []\<rparr>) = Some firstStage"
    "getProject (stage_projectId firstStage) (shop\<lparr>projects := []\<rparr>) = None"
    by (simp_all add: selectPaymentStage_def getProject_def sample_defs)
  have h7: "selectPaymentStage 1 (shop\<lparr>users := [adminUser]\<rparr>) = Some firstStage"
    "getProject (stage_projectId firstStage) (shop\<lparr>users := [adminUser]\<rparr>) = Some shopProject"
    "getUserById (clientId shopProject) (shop\<lparr>users := [adminUser]\<rparr>) = None"
    by (simp_all add: selectPaymentStage_def getProject_def getUserById_def sample_defs)
  note run = confirm_payment_submits_proof
    [where stageId = 1 and s = shopPaid and stage = paidStage and project = shopProject
       and client = clientUser and e = noFailures and u = clientUser
       and payMethod = "''transferencia''" and proofFile = "Some receipt" and info = None
       and dateNow = 1900 and confirmedAt = 1901]
  from run [THEN conjunct1, rule_format, OF conjI [OF h1 conjI [OF h2 h3]]]
  obtain updated data where
    row: "selectPaymentStage 1
            (fst (confirm_payment noFailures clientUser 1 ''transferencia'' (Some receipt) None
                    1900 1901 shopPaid)) = Some updated"
      "stage_status updated = PendingVerification"
      "paymentMethod updated = Some ''transferencia''"
      "proofFileUrl updated = proofFileName 1 1900 (Some receipt) None"
      "paymentData updated = Some data"
      "map_of data ''confirmedAt'' = Some (JDate 1901)"
    by (elim exE conjE) (rule that)
  have none: "proofFileName 1 1900 None None = None"
    using confirm_payment_submits_proof
      [where stageId = 1 and dateNow = 1900 and proofFile = None and info = None]
    by simp
  have nf1: "confirm_payment noFailures clientUser 99 ''transferencia'' (Some receipt) None 1900 1901
               shop = (shop, Inl (NotFound StageRow))"
    using confirm_payment_submits_proof [where stageId = 99 and s = shop] h5 by simp
  have nf2: "confirm_payment noFailures clientUser 1 ''transferencia'' (Some receipt) None 1900 1901
               (shop\<lparr>projects := []\<rparr>) = (shop\<lparr>projects := []\<rparr>, Inl (NotFound ProjectRow))"
    using confirm_payment_submits_proof
      [where stageId = 1 and s = "shop\<lparr>projects := []\<rparr>" and stage = firstStage] h6
    by simp
  have nf3: "confirm_payment noFailures clientUser 1 ''transferencia'' (Some receipt) None 1900 1901
               (shop\<lparr>users := [adminUser]\<rparr>)
             = (shop\<lparr>users := [adminUser]\<rparr>, Inl (NotFound ClientRow))"
    using confirm_payment_submits_proof
      [where stageId = 1 and s = "shop\<lparr>users := [adminUser]\<rparr>" and stage = firstStage
         and project = shopProject] h7
    by simp
  show ?thesis
    using h1 h2 h3 h4 h5 h6(2) h7(3) row none nf1 nf2 nf3
    by (simp add: proofFileName_receipt)
qed

section \<open>Failures of the notification channels\<close>







section \<open>Rounding to a double\<close>















section \<open>Creation of the stages\<close>

lemma trySendEmail_paymentStages [simp]: "paymentStages (trySendEmail e m s) = paymentStages s"
  by (simp add: trySendEmail_def sendEmail_def)

lemma mailAvailableStages_paymentStages [simp]:
  "paymentStages (mailAvailableStages e client project stages s) = paymentStages s"
  by (induction stages arbitrary: s) simp_all

lemma seedTimeline_paymentStages [simp]:
  "paymentStages (seedTimeline projectId items s) = paymentStages s"
  by (induction items arbitrary: s) (auto simp: createProjectTimeline_def)







section \<open>Responses to a budget negotiation\<close>

lemma next_id_above: "x \<in> set ids \<Longrightarrow> x < next_id ids"
  by (induction ids) (auto simp: next_id_def)

lemma next_id_fresh: "next_id ids \<notin> set ids"
  using next_id_above [of "next_id ids" ids] by auto

lemma find_in_front: "find P xs = Some x \<Longrightarrow> find P (xs @ ys) = Some x"
  by (induction xs) (auto split: if_splits)

lemma find_key: "find (\<lambda>x. key x = k) xs = Some x \<Longrightarrow> key x = k \<and> x \<in> set xs"
  by (induction xs) (auto split: if_splits)

lemma trySendEmail_frame: "\<exists>mails. trySendEmail e m s = s\<lparr>outbox := mails\<rparr>"
proof (cases "emailDown e")
  case True
  then have "trySendEmail e m s = s\<lparr>outbox := outbox s\<rparr>"
    by (simp add: trySendEmail_def sendEmail_def)
  then show ?thesis ..
next
  case False
  then have "trySendEmail e m s = s\<lparr>outbox := outbox s @ [m]\<rparr>"
    by (simp add: trySendEmail_def sendEmail_def)
  then show ?thesis ..
qed

lemma mailAdminsAcceptance_frame:
  "\<exists>mails. mailAdminsAcceptance e project client negotiation message admins s
           = s\<lparr>outbox := mails\<rparr>"
proof (induction admins arbitrary: s)
  case Nil
  have "mailAdminsAcceptance e project client negotiation message [] s = s\<lparr>outbox := outbox s\<rparr>"
    by simp
  then show ?case ..
next
  case (Cons admin rest)
  let ?s1 = "if email admin \<noteq> []
             then trySendEmail e (acceptanceMail (email admin) project client negotiation message) s
             else s"
  obtain m1 where one: "?s1 = s\<lparr>outbox := m1\<rparr>"
  proof (cases "email admin \<noteq> []")
    case True
    with trySendEmail_frame [of e _ s] that show ?thesis by auto
  next
    case False
    then have "?s1 = s\<lparr>outbox := outbox s\<rparr>" by simp
    with that show ?thesis by blast
  qed
  from Cons.IH [of ?s1] obtain m2 where
    "mailAdminsAcceptance e project client negotiation message rest ?s1 = ?s1\<lparr>outbox := m2\<rparr>"
    by blast
  with one have "mailAdminsAcceptance e project client negotiation message (admin # rest) s
                 = s\<lparr>outbox := m2\<rparr>"
    by simp
  then show ?case ..
qed

lemma acceptNegotiation_frame:
  assumes "selectBudgetNegotiation negotiationId s = Some negotiation"
  shows "\<exists>mails. acceptNegotiation e negotiationId message s =
           (updateProject (neg_projectId negotiation)
              (\<lambda>p. p\<lparr>price := proposedPrice negotiation, project_status := InProgress\<rparr>) s)
           \<lparr>outbox := mails\<rparr>"
proof -
  let ?s1 = "updateProject (neg_projectId negotiation)
              (\<lambda>p. p\<lparr>price := proposedPrice negotiation, project_status := InProgress\<rparr>) s"
  have same: "?s1 = ?s1\<lparr>outbox := outbox ?s1\<rparr>" by simp
  show ?thesis
  proof (cases "getProject (neg_projectId negotiation) ?s1")
    case None
    with assms have "acceptNegotiation e negotiationId message s = ?s1\<lparr>outbox := outbox ?s1\<rparr>"
      by (simp add: acceptNegotiation_def Let_def)
    then show ?thesis ..
  next
    case (Some project)
    show ?thesis
    proof (cases "getUserById (clientId project) ?s1")
      case None
      with Some assms
      have "acceptNegotiation e negotiationId message s = ?s1\<lparr>outbox := outbox ?s1\<rparr>"
        by (simp add: acceptNegotiation_def Let_def)
      then show ?thesis ..
    next
      case (Some client)
      from mailAdminsAcceptance_frame [of e project client negotiation message
             "getUsersByRole Admin ?s1" ?s1]
      obtain m1 where loop:
        "mailAdminsAcceptance e project client negotiation message (getUsersByRole Admin ?s1) ?s1
         = ?s1\<lparr>outbox := m1\<rparr>" by blast
      from trySendEmail_frame
             [of e "acceptanceMail (systemMailbox e) project client negotiation message"
                "?s1\<lparr>outbox := m1\<rparr>"]
      obtain m2 where last:
        "trySendEmail e (acceptanceMail (systemMailbox e) project client negotiation message)
           (?s1\<lparr>outbox := m1\<rparr>) = ?s1\<lparr>outbox := m2\<rparr>"
        by auto
      from assms \<open>getProject (neg_projectId negotiation) ?s1 = Some project\<close> Some loop last
      have "acceptNegotiation e negotiationId message s = ?s1\<lparr>outbox := m2\<rparr>"
        by (simp add: acceptNegotiation_def Let_def)
      then show ?thesis ..
    qed
  qed
qed

text \<open>
  Claim C6. Accepting a budget negotiation (of an existing project) sets the price of the
  project to the proposed price of the negotiation, forces the status of the project to
  \<^verbatim>\<open>in_progress\<close> and sets the status of the negotiation to \<^verbatim>\<open>accepted\<close>; the table of
  payment stages is left as it was, so every stage keeps the amount it was given at
  creation.
\<close>

theorem accept_overwrites_price_keeps_stage_amounts:
  assumes "selectBudgetNegotiation negotiationId s = Some negotiation"
    and "getProject (neg_projectId negotiation) s = Some project"
  shows "\<exists>s' project' negotiation'.
           respond_budget_negotiation e u negotiationId Accepted message counterPrice s
             = (s', Inr (Some negotiation'))
         \<and> getProject (neg_projectId negotiation) s' = Some project'
         \<and> price project' = proposedPrice negotiation
         \<and> project_status project' = InProgress
         \<and> selectBudgetNegotiation negotiationId s' = Some negotiation'
         \<and> neg_status negotiation' = Accepted
         \<and> paymentStages s' = paymentStages s
         \<and> map amount (paymentStages s') = map amount (paymentStages s)"
proof -
  let ?f = "\<lambda>p. p\<lparr>price := proposedPrice negotiation, project_status := InProgress\<rparr>"
  let ?g = "\<lambda>n. n\<lparr>neg_status := Accepted\<rparr>"
  from acceptNegotiation_frame [OF assms(1), of e message]
  obtain mails where acc: "acceptNegotiation e negotiationId message s =
      (updateProject (neg_projectId negotiation) ?f s)\<lparr>outbox := mails\<rparr>"
    by blast
  let ?s1 = "(updateProject (neg_projectId negotiation) ?f s)\<lparr>outbox := mails\<rparr>"
  let ?s3 = "?s1\<lparr>budgetNegotiations :=
                 map (\<lambda>n. if neg_id n = negotiationId then ?g n else n) (budgetNegotiations ?s1)\<rparr>"
  have neg: "selectBudgetNegotiation negotiationId ?s3 = Some (?g negotiation)"
    using find_update_row [where key = neg_id and f = ?g and k = negotiationId
                             and xs = "budgetNegotiations s"] assms(1)
    by (simp add: selectBudgetNegotiation_def updateProject_def)
  have run: "respond_budget_negotiation e u negotiationId Accepted message counterPrice s
             = (?s3, Inr (Some (?g negotiation)))"
    using neg by (cases counterPrice)
      (simp_all add: respond_budget_negotiation_def acc updateBudgetNegotiation_def Let_def)
  have proj: "getProject (neg_projectId negotiation) ?s3 = Some (?f project)"
    using find_update_row [where key = project_id and f = ?f and k = "neg_projectId negotiation"
                             and xs = "projects s"] assms(2)
    by (simp add: getProject_def updateProject_def)
  have stages: "paymentStages ?s3 = paymentStages s"
    by (simp add: updateProject_def)
  show ?thesis
    apply (rule exI [of _ ?s3], rule exI [of _ "?f project"], rule exI [of _ "?g negotiation"])
    using run proj neg stages by simp
qed


theorem accept_overwrites_price_keeps_stage_amounts_witness:
  "selectBudgetNegotiation 1 shop = Some firstOffer
   \<and> getProject (neg_projectId firstOffer) shop = Some shopProject
   \<and> price shopProject = 1000
   \<and> proposedPrice firstOffer = 800
   \<and> map amount (paymentStages shop) = [Finite 500, Finite 500]
   \<and> map_option price
        (getProject 10 (fst (respond_budget_negotiation noFailures clientUser 1 Accepted None None shop)))
       = Some 800
   \<and> map_option project_status
        (getProject 10 (fst (respond_budget_negotiation noFailures clientUser 1 Accepted None None shop)))
       = Some InProgress
   \<and> map_option neg_status
        (selectBudgetNegotiation 1
           (fst (respond_budget_negotiation noFailures clientUser 1 Accepted None None shop)))
       = Some Accepted
   \<and> map amount
        (paymentStages (fst (respond_budget_negotiation noFailures clientUser 1 Accepted None None shop)))
       = [Finite 500, Finite 500]"
proof -
  have h1: "selectBudgetNegotiation 1 shop = Some firstOffer"
    by (simp add: selectBudgetNegotiation_def sample_defs)
  have h2: "getProject (neg_projectId firstOffer) shop = Some shopProject"
    by (simp add: getProject_def sample_defs)
  have vals: "price shopProject = 1000" "proposedPrice firstOffer = 800"
    "map amount (paymentStages shop) = [Finite 500, Finite 500]" "neg_projectId firstOffer = 10"
    by (simp_all add: sample_defs)
  from accept_overwrites_price_keeps_stage_amounts [OF h1 h2, of noFailures clientUser None None]
  obtain s' project' negotiation' where
    run: "respond_budget_negotiation noFailures clientUser 1 Accepted None None shop
            = (s', Inr (Some negotiation'))"
    and facts: "getProject (neg_projectId firstOffer) s' = Some project'"
      "price project' = proposedPrice firstOffer"
      "project_status project' = InProgress"
      "selectBudgetNegotiation 1 s' = Some negotiation'"
      "neg_status negotiation' = Accepted"
      "map amount (paymentStages s') = map amount (paymentStages shop)"
    by (elim exE conjE) (rule that)
  show ?thesis
    using h1 h2 vals run facts by simp
qed

text \<open>
  Claim C7 as stated has every response with status \<^verbatim>\<open>countered\<close> create a new row. A
  response that carries no counter price marks the negotiation as countered and creates
  nothing: the guard is \<^verbatim>\<open>status === "countered" && counterPrice\<close>.
\<close>

theorem counter_without_price_counterexample:
  "budgetNegotiations
     (fst (respond_budget_negotiation noFailures adminUser 1 Countered (Some ''mas'') None shop))
   = [firstOffer\<lparr>neg_status := Countered\<rparr>]"
  by (simp add: respond_budget_negotiation_def store_defs sample_defs)

text \<open>
  Claim C7, amended. Responding to an existing negotiation N with status \<^verbatim>\<open>countered\<close> and a
  counter price that is present and not zero appends one new negotiation N' under an
  identifier no row had, with \<^verbatim>\<open>originalPrice\<close> the proposed price of N, \<^verbatim>\<open>proposedPrice\<close> the
  counter price and status \<^verbatim>\<open>pending\<close>, and sets the status of N to \<^verbatim>\<open>countered\<close>, N being
  otherwise unchanged and the other rows untouched. With a counter price that is absent or
  zero, N is marked \<^verbatim>\<open>countered\<close> all the same and no row is created: the store is the old
  store with that one status changed.
\<close>

theorem counter_appends_new_negotiation:
  assumes "selectBudgetNegotiation negotiationId s = Some old"
  shows "(counterPrice \<noteq> 0 \<longrightarrow>
           (\<exists>s' created updated.
               respond_budget_negotiation e u negotiationId Countered message (Some counterPrice) s
                 = (s', Inr (Some updated))
             \<and> budgetNegotiations s' =
                 map (\<lambda>n. if neg_id n = negotiationId then n\<lparr>neg_status := Countered\<rparr> else n)
                   (budgetNegotiations s) @ [created]
             \<and> neg_id created \<notin> set (map neg_id (budgetNegotiations s))
             \<and> neg_projectId created = neg_projectId old
             \<and> proposedBy created = user_id u
             \<and> originalPrice created = proposedPrice old
             \<and> proposedPrice created = counterPrice
             \<and> neg_message created = message
             \<and> neg_status created = NegPending
             \<and> updated = old\<lparr>neg_status := Countered\<rparr>
             \<and> selectBudgetNegotiation negotiationId s' = Some updated))
       \<and> (absent = None \<or> absent = Some 0 \<longrightarrow>
             respond_budget_negotiation e u negotiationId Countered message absent s
               = (s\<lparr>budgetNegotiations :=
                      map (\<lambda>n. if neg_id n = negotiationId then n\<lparr>neg_status := Countered\<rparr> else n)
                        (budgetNegotiations s)\<rparr>,
                  Inr (Some (old\<lparr>neg_status := Countered\<rparr>))))"
proof (intro conjI impI)
  let ?g = "\<lambda>n. n\<lparr>neg_status := Countered\<rparr>"
  have found: "find (\<lambda>n. neg_id n = negotiationId)
                 (map (\<lambda>n. if neg_id n = negotiationId then ?g n else n) (budgetNegotiations s))
               = Some (?g old)"
    using find_update_row [where key = neg_id and f = ?g and k = negotiationId
                             and xs = "budgetNegotiations s"] assms(1)
    by (simp add: selectBudgetNegotiation_def)
  {
    assume price: "counterPrice \<noteq> 0"
    let ?created = "\<lparr>neg_id = next_id (map neg_id (budgetNegotiations s)),
                      neg_projectId = neg_projectId old, proposedBy = user_id u,
                      originalPrice = proposedPrice old, proposedPrice = counterPrice,
                      neg_message = message, neg_status = NegPending\<rparr>"
    let ?s' = "s\<lparr>budgetNegotiations :=
                   map (\<lambda>n. if neg_id n = negotiationId then ?g n else n) (budgetNegotiations s)
                   @ [?created]\<rparr>"
    from assms(1) have old: "neg_id old = negotiationId" "old \<in> set (budgetNegotiations s)"
      using find_key [where key = neg_id and k = negotiationId and xs = "budgetNegotiations s"]
      by (simp_all add: selectBudgetNegotiation_def)
    have fresh: "next_id (map neg_id (budgetNegotiations s)) \<notin> set (map neg_id (budgetNegotiations s))"
      by (rule next_id_fresh)
    with old have other: "next_id (map neg_id (budgetNegotiations s)) \<noteq> negotiationId"
      by force
    have sel: "selectBudgetNegotiation negotiationId ?s' = Some (?g old)"
      using find_in_front [OF found, of "[?created]"]
      by (simp add: selectBudgetNegotiation_def)
    have run: "respond_budget_negotiation e u negotiationId Countered message (Some counterPrice) s
               = (?s', Inr (Some (?g old)))"
      using assms price sel other
      by (simp add: respond_budget_negotiation_def counterNegotiation_def
            createBudgetNegotiation_def updateBudgetNegotiation_def Let_def)
    show "\<exists>s' created updated.
               respond_budget_negotiation e u negotiationId Countered message (Some counterPrice) s
                 = (s', Inr (Some updated))
             \<and> budgetNegotiations s' =
                 map (\<lambda>n. if neg_id n = negotiationId then n\<lparr>neg_status := Countered\<rparr> else n)
                   (budgetNegotiations s) @ [created]
             \<and> neg_id created \<notin> set (map neg_id (budgetNegotiations s))
             \<and> neg_projectId created = neg_projectId old
             \<and> proposedBy created = user_id u
             \<and> originalPrice created = proposedPrice old
             \<and> proposedPrice created = counterPrice
             \<and> neg_message created = message
             \<and> neg_status created = NegPending
             \<and> updated = old\<lparr>neg_status := Countered\<rparr>
             \<and> selectBudgetNegotiation negotiationId s' = Some updated"
      apply (rule exI [of _ ?s'], rule exI [of _ ?created], rule exI [of _ "?g old"])
      using run sel fresh by simp
  }
  {
    assume "absent = None \<or> absent = Some 0"
    then show "respond_budget_negotiation e u negotiationId Countered message absent s
               = (s\<lparr>budgetNegotiations :=
                      map (\<lambda>n. if neg_id n = negotiationId then n\<lparr>neg_status := Countered\<rparr> else n)
                        (budgetNegotiations s)\<rparr>,
                  Inr (Some (old\<lparr>neg_status := Countered\<rparr>)))"
      using found
      by (auto simp: respond_budget_negotiation_def updateBudgetNegotiation_def
            selectBudgetNegotiation_def Let_def)
  }
qed

theorem counter_appends_new_negotiation_witness:
  "selectBudgetNegotiation 1 shop = Some firstOffer
   \<and> (900::rat) \<noteq> 0
   \<and> proposedPrice firstOffer = 800
   \<and> budgetNegotiations
        (fst (respond_budget_negotiation noFailures adminUser 1 Countered (Some ''mas'') (Some 900) shop))
       = [firstOffer\<lparr>neg_status := Countered\<rparr>,
          \<lparr>neg_id = 2, neg_projectId = 10, proposedBy = 1, originalPrice = 800,
            proposedPrice = 900, neg_message = Some ''mas'', neg_status = NegPending\<rparr>]
   \<and> respond_budget_negotiation noFailures adminUser 1 Countered (Some ''mas'') None shop
       = (shop\<lparr>budgetNegotiations := [firstOffer\<lparr>neg_status := Countered\<rparr>]\<rparr>,
          Inr (Some (firstOffer\<lparr>neg_status := Countered\<rparr>)))
   \<and> respond_budget_negotiation noFailures adminUser 1 Countered (Some ''mas'') (Some 0) shop
       = (shop\<lparr>budgetNegotiations := [firstOffer\<lparr>neg_status := Countered\<rparr>]\<rparr>,
          Inr (Some (firstOffer\<lparr>neg_status := Countered\<rparr>)))"
proof -
  have h1: "selectBudgetNegotiation 1 shop = Some firstOffer"
    by (simp add: selectBudgetNegotiation_def sample_defs)
  have h2: "(900::rat) \<noteq> 0" by simp
  note all = counter_appends_new_negotiation [OF h1, of _ noFailures adminUser "Some ''mas''"]
  from all [of 900 None, THEN conjunct1, rule_format, OF h2]
  obtain s' created updated where
    run: "respond_budget_negotiation noFailures adminUser 1 Countered (Some ''mas'') (Some 900) shop
            = (s', Inr (Some updated))"
    and rows: "budgetNegotiations s' =
             map (\<lambda>n. if neg_id n = 1 then n\<lparr>neg_status := Countered\<rparr> else n)
               (budgetNegotiations shop) @ [created]"
    and new: "neg_id created \<notin> set (map neg_id (budgetNegotiations shop))"
      "neg_projectId created = neg_projectId firstOffer"
      "proposedBy created = user_id adminUser"
      "originalPrice created = proposedPrice firstOffer"
      "proposedPrice created = 900"
      "neg_message created = Some ''mas''"
      "neg_status created = NegPending"
    by (elim exE conjE) (rule that)
  have eval: "budgetNegotiations
        (fst (respond_budget_negotiation noFailures adminUser 1 Countered (Some ''mas'') (Some 900) shop))
       = [firstOffer\<lparr>neg_status := Countered\<rparr>,
          \<lparr>neg_id = 2, neg_projectId = 10, proposedBy = 1, originalPrice = 800,
            proposedPrice = 900, neg_message = Some ''mas'', neg_status = NegPending\<rparr>]"
    by (simp add: respond_budget_negotiation_def counterNegotiation_def store_defs sample_defs
          Let_def)
  have table: "map (\<lambda>n. if neg_id n = 1 then n\<lparr>neg_status := Countered\<rparr> else n)
                 (budgetNegotiations shop) = [firstOffer\<lparr>neg_status := Countered\<rparr>]"
    by (simp add: sample_defs)
  from all [of 900 None, THEN conjunct2] table
  have none: "respond_budget_negotiation noFailures adminUser 1 Countered (Some ''mas'') None shop
       = (shop\<lparr>budgetNegotiations := [firstOffer\<lparr>neg_status := Countered\<rparr>]\<rparr>,
          Inr (Some (firstOffer\<lparr>neg_status := Countered\<rparr>)))"
    by simp
  from all [of 900 "Some 0", THEN conjunct2] table
  have zero: "respond_budget_negotiation noFailures adminUser 1 Countered (Some ''mas'') (Some 0) shop
       = (shop\<lparr>budgetNegotiations := [firstOffer\<lparr>neg_status := Countered\<rparr>]\<rparr>,
          Inr (Some (firstOffer\<lparr>neg_status := Countered\<rparr>)))"
    by simp
  have "proposedPrice firstOffer = 800" by (simp add: sample_defs)
  with h1 h2 eval run rows new none zero show ?thesis by simp
qed

section \<open>The settlement document\<close>

text \<open>\<^verbatim>\<open>findIndex\<close> on a list that holds a match, and the place of a stage among the stages
  of its project.\<close>

lemma findIndex_found:
  assumes "\<exists>x \<in> set xs. P x"
  shows "0 \<le> findIndex P xs \<and> nat (findIndex P xs) < length xs
         \<and> P (xs ! nat (findIndex P xs))
         \<and> (\<forall>j < nat (findIndex P xs). \<not> P (xs ! j))"
  using assms
proof (induction xs)
  case Nil
  then show ?case by simp
next
  case (Cons x xs)
  show ?case
  proof (cases "P x")
    case True
    then show ?thesis by simp
  next
    case False
    with Cons.prems have "\<exists>x \<in> set xs. P x" by auto
    from Cons.IH [OF this] False show ?thesis
      by (auto simp: Let_def nat_add_distrib nth_Cons' less_Suc_eq_0_disj)
  qed
qed

lemma stage_among_project_stages:
  assumes "selectPaymentStage stageId s = Some stage"
  shows "stage_id stage = stageId"
    and "stage \<in> set (sort_key requiredProgress (getPaymentStages (stage_projectId stage) s))"
  using find_key [where key = stage_id and k = stageId and xs = "paymentStages s"] assms
  by (simp_all add: selectPaymentStage_def getPaymentStages_def)


text \<open>The second endpoint computes what the first does and prints another line.\<close>

lemma resimple_as_download:
  "download_stage_invoice_resimple u stageIdParam s =
     (case download_stage_invoice u stageIdParam s of
        Inl err \<Rightarrow> Inl err
      | Inr doc \<Rightarrow>
          Inr (doc\<lparr>inv_stageLine := ''Etapa '' @ show_int (inv_stageNumber doc) @ '' de ''
                                     @ show_nat (inv_totalStages doc)\<rparr>))"
  by (simp add: download_stage_invoice_def download_stage_invoice_resimple_def Let_def
           split: option.splits)

lemma download_stage_invoice_result:
  "download_stage_invoice u stageIdParam s = Inr doc \<longleftrightarrow>
     (\<exists>stageId stage project.
        stageIdParam = Some stageId \<and> selectPaymentStage stageId s = Some stage
      \<and> getProject (stage_projectId stage) s = Some project
      \<and> clientId project = user_id u \<and> stage_status stage = Paid
      \<and> doc = \<lparr>inv_stageNumber =
                  findIndex (\<lambda>x. stage_id x = stage_id stage)
                    (sort_key requiredProgress (getPaymentStages (stage_projectId stage) s)) + 1,
                inv_totalStages =
                  length (sort_key requiredProgress (getPaymentStages (stage_projectId stage) s)),
                inv_stageLine =
                  stageName stage @ '' - Etapa ''
                  @ show_int (findIndex (\<lambda>x. stage_id x = stage_id stage)
                       (sort_key requiredProgress (getPaymentStages (stage_projectId stage) s)) + 1)
                  @ '' de ''
                  @ show_nat (length (sort_key requiredProgress
                                        (getPaymentStages (stage_projectId stage) s))),
                inv_amount = amount stage\<rparr>)"
  by (auto simp: download_stage_invoice_def Let_def split: option.splits)

text \<open>The number that a successful download prints is the rank of the stage.\<close>

lemma download_stage_invoice_numbering:
  assumes "download_stage_invoice u (Some stageId) s = Inr doc"
    and "selectPaymentStage stageId s = Some stage"
    and "ranked = sort_key requiredProgress (getPaymentStages (stage_projectId stage) s)"
  shows "inv_totalStages doc = length ranked"
    and "1 \<le> inv_stageNumber doc" and "inv_stageNumber doc \<le> int (inv_totalStages doc)"
    and "stage_id (ranked ! nat (inv_stageNumber doc - 1)) = stageId"
    and "\<forall>j < nat (inv_stageNumber doc - 1). stage_id (ranked ! j) \<noteq> stageId"
    and "inv_stageLine doc =
           stageName stage @ '' - Etapa '' @ show_int (inv_stageNumber doc) @ '' de ''
           @ show_nat (inv_totalStages doc)"
proof -
  from assms(1,2) have doc: "doc = \<lparr>inv_stageNumber =
                  findIndex (\<lambda>x. stage_id x = stage_id stage) ranked + 1,
                inv_totalStages = length ranked,
                inv_stageLine =
                  stageName stage @ '' - Etapa ''
                  @ show_int (findIndex (\<lambda>x. stage_id x = stage_id stage) ranked + 1)
                  @ '' de '' @ show_nat (length ranked),
                inv_amount = amount stage\<rparr>"
    unfolding download_stage_invoice_result assms(3) by auto
  note mem = stage_among_project_stages [OF assms(2)]
  from mem have "\<exists>x \<in> set ranked. stage_id x = stage_id stage"
    unfolding assms(3) by blast
  note idx = findIndex_found [OF this]
  show "inv_totalStages doc = length ranked" by (simp add: doc)
  show "1 \<le> inv_stageNumber doc" using idx by (simp add: doc)
  show "inv_stageNumber doc \<le> int (inv_totalStages doc)" using idx by (simp add: doc) linarith
  show "stage_id (ranked ! nat (inv_stageNumber doc - 1)) = stageId"
    using idx mem(1) by (simp add: doc)
  show "\<forall>j < nat (inv_stageNumber doc - 1). stage_id (ranked ! j) \<noteq> stageId"
    using idx mem(1) by (simp add: doc)
  show "inv_stageLine doc =
           stageName stage @ '' - Etapa '' @ show_int (inv_stageNumber doc) @ '' de ''
           @ show_nat (inv_totalStages doc)"
    by (simp add: doc)
qed


lemma sort_key_requiredProgress_sorted:
  "sorted (map requiredProgress (sort_key requiredProgress stages))"
  by (rule sorted_sort_key)

text \<open>
  Claim C8. Generating the settlement document of a stage, on either download endpoint,
  requires the status of the stage to be \<^verbatim>\<open>paid\<close>: for the client who owns the project, a
  stage in any other status gives the InvalidState error (400) and a paid stage gives the
  document; and every document that is produced belongs to a paid stage, shows as stage
  number the 1-based position of the first row with the identifier of the stage among all
  stages of its project sorted by ascending \<^verbatim>\<open>requiredProgress\<close>, and shows it together with
  the number of those stages ("n de total").
\<close>

theorem settlement_document_requires_paid_and_ranks_stage:
  "download = download_stage_invoice \<or> download = download_stage_invoice_resimple \<longrightarrow>
     (selectPaymentStage stageId s = Some stage
        \<and> getProject (stage_projectId stage) s = Some project
        \<and> clientId project = user_id u
        \<and> stage_status stage \<noteq> Paid \<longrightarrow>
        download u (Some stageId) s = Inl InvalidState)
   \<and> (selectPaymentStage stageId s = Some stage
        \<and> getProject (stage_projectId stage) s = Some project
        \<and> clientId project = user_id u
        \<and> stage_status stage = Paid \<longrightarrow>
        (\<exists>document. download u (Some stageId) s = Inr document))
   \<and> (download u stageIdParam s = Inr doc \<longrightarrow>
        (\<exists>paidId paid ranked.
            stageIdParam = Some paidId
          \<and> selectPaymentStage paidId s = Some paid
          \<and> stage_status paid = Paid
          \<and> ranked = sort_key requiredProgress (getPaymentStages (stage_projectId paid) s)
          \<and> sorted (map requiredProgress ranked)
          \<and> inv_totalStages doc = length ranked
          \<and> 1 \<le> inv_stageNumber doc
          \<and> inv_stageNumber doc \<le> int (inv_totalStages doc)
          \<and> stage_id (ranked ! nat (inv_stageNumber doc - 1)) = paidId
          \<and> (\<forall>j < nat (inv_stageNumber doc - 1). stage_id (ranked ! j) \<noteq> paidId)
          \<and> sublist (show_int (inv_stageNumber doc) @ '' de '' @ show_nat (inv_totalStages doc))
               (inv_stageLine doc)))"
proof -
  have first: "(selectPaymentStage stageId s = Some stage
        \<and> getProject (stage_projectId stage) s = Some project
        \<and> clientId project = user_id u
        \<and> stage_status stage \<noteq> Paid \<longrightarrow>
        download_stage_invoice u (Some stageId) s = Inl InvalidState)
   \<and> (selectPaymentStage stageId s = Some stage
        \<and> getProject (stage_projectId stage) s = Some project
        \<and> clientId project = user_id u
        \<and> stage_status stage = Paid \<longrightarrow>
        (\<exists>document. download_stage_invoice u (Some stageId) s = Inr document))"
    by (simp add: download_stage_invoice_def Let_def)
  have second: "(selectPaymentStage stageId s = Some stage
        \<and> getProject (stage_projectId stage) s = Some project
        \<and> clientId project = user_id u
        \<and> stage_status stage \<noteq> Paid \<longrightarrow>
        download_stage_invoice_resimple u (Some stageId) s = Inl InvalidState)
   \<and> (selectPaymentStage stageId s = Some stage
        \<and> getProject (stage_projectId stage) s = Some project
        \<and> clientId project = user_id u
        \<and> stage_status stage = Paid \<longrightarrow>
        (\<exists>document. download_stage_invoice_resimple u (Some stageId) s = Inr document))"
    by (simp add: download_stage_invoice_resimple_def Let_def)
  have rank: "\<exists>paidId paid ranked.
            stageIdParam = Some paidId
          \<and> selectPaymentStage paidId s = Some paid
          \<and> stage_status paid = Paid
          \<and> ranked = sort_key requiredProgress (getPaymentStages (stage_projectId paid) s)
          \<and> sorted (map requiredProgress ranked)
          \<and> inv_totalStages d = length ranked
          \<and> 1 \<le> inv_stageNumber d
          \<and> inv_stageNumber d \<le> int (inv_totalStages d)
          \<and> stage_id (ranked ! nat (inv_stageNumber d - 1)) = paidId
          \<and> (\<forall>j < nat (inv_stageNumber d - 1). stage_id (ranked ! j) \<noteq> paidId)
          \<and> inv_stageLine d =
               stageName paid @ '' - Etapa '' @ show_int (inv_stageNumber d) @ '' de ''
               @ show_nat (inv_totalStages d)"
    if ok: "download_stage_invoice u stageIdParam s = Inr d" for d
  proof -
    from ok obtain paidId paid where
      found: "stageIdParam = Some paidId" "selectPaymentStage paidId s = Some paid"
        "stage_status paid = Paid"
      unfolding download_stage_invoice_result by blast
    from ok found(1) have run: "download_stage_invoice u (Some paidId) s = Inr d" by simp
    note facts = download_stage_invoice_numbering [OF run found(2) refl]
    show ?thesis
      apply (rule exI [of _ paidId], rule exI [of _ paid],
             rule exI [of _ "sort_key requiredProgress (getPaymentStages (stage_projectId paid) s)"])
      using found facts sort_key_requiredProgress_sorted by simp
  qed
  have line1: "sublist (show_int n @ '' de '' @ show_nat m)
                 (name @ '' - Etapa '' @ show_int n @ '' de '' @ show_nat m)" for n m name
    unfolding sublist_def
    by (rule exI [of _ "name @ '' - Etapa ''"], rule exI [of _ "[]"]) simp
  have line2: "sublist (show_int n @ '' de '' @ show_nat m)
                 (''Etapa '' @ show_int n @ '' de '' @ show_nat m)" for n m
    unfolding sublist_def
    by (rule exI [of _ "''Etapa ''"], rule exI [of _ "[]"]) simp
  show ?thesis
  proof (intro impI, elim disjE)
    assume d: "download = download_stage_invoice"
    show "(selectPaymentStage stageId s = Some stage
        \<and> getProject (stage_projectId stage) s = Some project
        \<and> clientId project = user_id u
        \<and> stage_status stage \<noteq> Paid \<longrightarrow>
        download u (Some stageId) s = Inl InvalidState)
   \<and> (selectPaymentStage stageId s = Some stage
        \<and> getProject (stage_projectId stage) s = Some project
        \<and> clientId project = user_id u
        \<and> stage_status stage = Paid \<longrightarrow>
        (\<exists>document. download u (Some stageId) s = Inr document))
   \<and> (download u stageIdParam s = Inr doc \<longrightarrow>
        (\<exists>paidId paid ranked.
            stageIdParam = Some paidId
          \<and> selectPaymentStage paidId s = Some paid
          \<and> stage_status paid = Paid
          \<and> ranked = sort_key requiredProgress (getPaymentStages (stage_projectId paid) s)
          \<and> sorted (map requiredProgress ranked)
          \<and> inv_totalStages doc = length ranked
          \<and> 1 \<le> inv_stageNumber doc
          \<and> inv_stageNumber doc \<le> int (inv_totalStages doc)
          \<and> stage_id (ranked ! nat (inv_stageNumber doc - 1)) = paidId
          \<and> (\<forall>j < nat (inv_stageNumber doc - 1). stage_id (ranked ! j) \<noteq> paidId)
          \<and> sublist (show_int (inv_stageNumber doc) @ '' de '' @ show_nat (inv_totalStages doc))
               (inv_stageLine doc)))"
    proof (intro conjI impI)
      assume "download u stageIdParam s = Inr doc"
      with d have "download_stage_invoice u stageIdParam s = Inr doc" by simp
      from rank [OF this] line1 show "\<exists>paidId paid ranked.
            stageIdParam = Some paidId
          \<and> selectPaymentStage paidId s = Some paid
          \<and> stage_status paid = Paid
          \<and> ranked = sort_key requiredProgress (getPaymentStages (stage_projectId paid) s)
          \<and> sorted (map requiredProgress ranked)
          \<and> inv_totalStages doc = length ranked
          \<and> 1 \<le> inv_stageNumber doc
          \<and> inv_stageNumber doc \<le> int (inv_totalStages doc)
          \<and> stage_id (ranked ! nat (inv_stageNumber doc - 1)) = paidId
          \<and> (\<forall>j < nat (inv_stageNumber doc - 1). stage_id (ranked ! j) \<noteq> paidId)
          \<and> sublist (show_int (inv_stageNumber doc) @ '' de '' @ show_nat (inv_totalStages doc))
               (inv_stageLine doc)"
        by (elim exE conjE) (intro exI conjI, assumption+, simp)
    qed (use d first in simp_all)
  next
    assume d: "download = download_stage_invoice_resimple"
    show "(selectPaymentStage stageId s = Some stage
        \<and> getProject (stage_projectId stage) s = Some project
        \<and> clientId project = user_id u
        \<and> stage_status stage \<noteq> Paid \<longrightarrow>
        download u (Some stageId) s = Inl InvalidState)
   \<and> (selectPaymentStage stageId s = Some stage
        \<and> getProject (stage_projectId stage) s = Some project
        \<and> clientId project = user_id u
        \<and> stage_status stage = Paid \<longrightarrow>
        (\<exists>document. download u (Some stageId) s = Inr document))
   \<and> (download u stageIdParam s = Inr doc \<longrightarrow>
        (\<exists>paidId paid ranked.
            stageIdParam = Some paidId
          \<and> selectPaymentStage paidId s = Some paid
          \<and> stage_status paid = Paid
          \<and> ranked = sort_key requiredProgress (getPaymentStages (stage_projectId paid) s)
          \<and> sorted (map requiredProgress ranked)
          \<and> inv_totalStages doc = length ranked
          \<and> 1 \<le> inv_stageNumber doc
          \<and> inv_stageNumber doc \<le> int (inv_totalStages doc)
          \<and> stage_id (ranked ! nat (inv_stageNumber doc - 1)) = paidId
          \<and> (\<forall>j < nat (inv_stageNumber doc - 1). stage_id (ranked ! j) \<noteq> paidId)
          \<and> sublist (show_int (inv_stageNumber doc) @ '' de '' @ show_nat (inv_totalStages doc))
               (inv_stageLine doc)))"
    proof (intro conjI impI)
      assume "download u stageIdParam s = Inr doc"
      with d obtain d0 where base: "download_stage_invoice u stageIdParam s = Inr d0"
        and doc: "doc = d0\<lparr>inv_stageLine := ''Etapa '' @ show_int (inv_stageNumber d0) @ '' de ''
                                     @ show_nat (inv_totalStages d0)\<rparr>"
        by (auto simp: resimple_as_download split: sum.splits)
      from rank [OF base] line2 doc show "\<exists>paidId paid ranked.
            stageIdParam = Some paidId
          \<and> selectPaymentStage paidId s = Some paid
          \<and> stage_status paid = Paid
          \<and> ranked = sort_key requiredProgress (getPaymentStages (stage_projectId paid) s)
          \<and> sorted (map requiredProgress ranked)
          \<and> inv_totalStages doc = length ranked
          \<and> 1 \<le> inv_stageNumber doc
          \<and> inv_stageNumber doc \<le> int (inv_totalStages doc)
          \<and> stage_id (ranked ! nat (inv_stageNumber doc - 1)) = paidId
          \<and> (\<forall>j < nat (inv_stageNumber doc - 1). stage_id (ranked ! j) \<noteq> paidId)
          \<and> sublist (show_int (inv_stageNumber doc) @ '' de '' @ show_nat (inv_totalStages doc))
               (inv_stageLine doc)"
        by (elim exE conjE) (intro exI conjI, assumption+, simp_all)
    qed (use d second in simp_all)
  qed
qed


lemma download_shopPaid:
  "download_stage_invoice clientUser (Some 1) shopPaid =
     Inr \<lparr>inv_stageNumber = 1, inv_totalStages = 2, inv_stageLine = ''Anticipo - Etapa 1 de 2'',
          inv_amount = Finite 500\<rparr>"
  "download_stage_invoice_resimple clientUser (Some 1) shopPaid =
     Inr \<lparr>inv_stageNumber = 1, inv_totalStages = 2, inv_stageLine = ''Etapa 1 de 2'',
          inv_amount = Finite 500\<rparr>"
  "sort_key requiredProgress (getPaymentStages 10 shopPaid) = [paidStage, secondStage]"
  by (simp_all add: download_stage_invoice_def download_stage_invoice_resimple_def store_defs
        sample_defs show_int_def show_nat.simps)

theorem settlement_document_requires_paid_and_ranks_stage_witness:
  "selectPaymentStage 2 shopPaid = Some secondStage
   \<and> getProject (stage_projectId secondStage) shopPaid = Some shopProject
   \<and> clientId shopProject = user_id clientUser
   \<and> stage_status secondStage \<noteq> Paid
   \<and> download_stage_invoice clientUser (Some 2) shopPaid = Inl InvalidState
   \<and> download_stage_invoice_resimple clientUser (Some 2) shopPaid = Inl InvalidState
   \<and> selectPaymentStage 1 shopPaid = Some paidStage
   \<and> stage_status paidStage = Paid
   \<and> paymentStages shopPaid = [secondStage, paidStage]
   \<and> sort_key requiredProgress (getPaymentStages 10 shopPaid) = [paidStage, secondStage]
   \<and> download_stage_invoice clientUser (Some 1) shopPaid =
       Inr \<lparr>inv_stageNumber = 1, inv_totalStages = 2, inv_stageLine = ''Anticipo - Etapa 1 de 2'',
            inv_amount = Finite 500\<rparr>
   \<and> download_stage_invoice_resimple clientUser (Some 1) shopPaid =
       Inr \<lparr>inv_stageNumber = 1, inv_totalStages = 2, inv_stageLine = ''Etapa 1 de 2'',
            inv_amount = Finite 500\<rparr>
   \<and> sublist ''1 de 2'' ''Anticipo - Etapa 1 de 2''"
proof -
  let ?doc = "\<lparr>inv_stageNumber = 1, inv_totalStages = 2,
               inv_stageLine = ''Anticipo - Etapa 1 de 2'', inv_amount = Finite 500\<rparr>"
  have h: "selectPaymentStage 2 shopPaid = Some secondStage"
    "getProject (stage_projectId secondStage) shopPaid = Some shopProject"
    "clientId shopProject = user_id clientUser"
    "stage_status secondStage \<noteq> Paid"
    by (simp_all add: selectPaymentStage_def getProject_def sample_defs)
  have p: "selectPaymentStage 1 shopPaid = Some paidStage" "stage_status paidStage = Paid"
    "paymentStages shopPaid = [secondStage, paidStage]"
    by (simp_all add: selectPaymentStage_def sample_defs)
  note full = settlement_document_requires_paid_and_ranks_stage
    [where stageId = 2 and s = shopPaid and stage = secondStage and project = shopProject
       and u = clientUser and download = download_stage_invoice and stageIdParam = "Some 1"
       and doc = ?doc]
  note simple = settlement_document_requires_paid_and_ranks_stage
    [where stageId = 2 and s = shopPaid and stage = secondStage and project = shopProject
       and u = clientUser and download = download_stage_invoice_resimple]
  from full h have e1: "download_stage_invoice clientUser (Some 2) shopPaid = Inl InvalidState"
    by simp
  from simple h have e2: "download_stage_invoice_resimple clientUser (Some 2) shopPaid = Inl InvalidState"
    by simp
  from full download_shopPaid(1)
  have "sublist (show_int (inv_stageNumber ?doc) @ '' de '' @ show_nat (inv_totalStages ?doc))
          (inv_stageLine ?doc)"
    by auto
  then have line: "sublist ''1 de 2'' ''Anticipo - Etapa 1 de 2''"
    by (simp add: show_int_def show_nat.simps)
  from h p e1 e2 line show ?thesis
    by (simp add: download_shopPaid)
qed

text \<open>
  Claim C10. For every authenticated user whose identifier is not the \<^verbatim>\<open>clientId\<close> of the
  project of the stage, whatever the role of the user (admin included) and whatever the
  status of the stage (paid included), both download endpoints answer Forbidden; and a
  document is only ever produced for the user who is the client of the project.
\<close>

theorem only_owning_client_downloads:
  "download = download_stage_invoice \<or> download = download_stage_invoice_resimple \<longrightarrow>
     (selectPaymentStage stageId s = Some stage
        \<and> getProject (stage_projectId stage) s = Some project
        \<and> user_id u \<noteq> clientId project \<longrightarrow>
        download u (Some stageId) s = Inl Forbidden)
   \<and> (download u stageIdParam s = Inr doc \<longrightarrow>
        (\<exists>paidId paid owner.
            stageIdParam = Some paidId
          \<and> selectPaymentStage paidId s = Some paid
          \<and> getProject (stage_projectId paid) s = Some owner
          \<and> clientId owner = user_id u))"
  by (auto simp: download_stage_invoice_def download_stage_invoice_resimple_def Let_def
           split: option.splits if_splits)

theorem only_owning_client_downloads_witness:
  "selectPaymentStage 1 shopPaid = Some paidStage
   \<and> stage_status paidStage = Paid
   \<and> getProject (stage_projectId paidStage) shopPaid = Some shopProject
   \<and> user_role adminUser = Admin
   \<and> user_id adminUser \<noteq> clientId shopProject
   \<and> download_stage_invoice adminUser (Some 1) shopPaid = Inl Forbidden
   \<and> download_stage_invoice_resimple adminUser (Some 1) shopPaid = Inl Forbidden
   \<and> clientId shopProject = user_id clientUser
   \<and> \<not> isl (download_stage_invoice clientUser (Some 1) shopPaid)
   \<and> \<not> isl (download_stage_invoice_resimple clientUser (Some 1) shopPaid)"
proof -
  have h: "selectPaymentStage 1 shopPaid = Some paidStage"
    "stage_status paidStage = Paid"
    "getProject (stage_projectId paidStage) shopPaid = Some shopProject"
    "user_role adminUser = Admin"
    "user_id adminUser \<noteq> clientId shopProject"
    "clientId shopProject = user_id clientUser"
    by (simp_all add: selectPaymentStage_def getProject_def sample_defs)
  from only_owning_client_downloads
    [where stageId = 1 and s = shopPaid and stage = paidStage and project = shopProject
       and u = adminUser and download = download_stage_invoice] h
  have f1: "download_stage_invoice adminUser (Some 1) shopPaid = Inl Forbidden"
    by simp
  from only_owning_client_downloads
    [where stageId = 1 and s = shopPaid and stage = paidStage and project = shopProject
       and u = adminUser and download = download_stage_invoice_resimple] h
  have f2: "download_stage_invoice_resimple adminUser (Some 1) shopPaid = Inl Forbidden"
    by simp
  from h f1 f2 show ?thesis
    by (simp add: download_shopPaid)
qed

end
